theory Spec2Isabelle
  imports Complex_Main "HOL-Library.Log_Nat" "HOL-Library.Sublist"
begin

text \<open>
  A model of \<^verbatim>\<open>src/gpu_gaming_advisor/fps_predictor.py\<close>: the reference tables, the name
  resolution, \<^verbatim>\<open>FPSPredictor.predict\<close>, \<^verbatim>\<open>find_optimal_settings\<close> and \<^verbatim>\<open>compare_gpus\<close>,
  with the part of \<^verbatim>\<open>game_analyzer.py\<close> that \<^verbatim>\<open>predict\<close> calls. The definitions come
  first, the properties after them.
\<close>

section \<open>Python values used by the FPS predictor\<close>

subsection \<open>Strings\<close>

text \<open>
  A Python \<^verbatim>\<open>str\<close> is modelled as a \<^typ>\<open>string\<close>, over the ASCII characters. The case
  mappings \<^verbatim>\<open>str.upper\<close> and \<^verbatim>\<open>str.lower\<close> exchange the letters a to z with A to Z and
  leave every other character as it is, as Python does on ASCII strings.
\<close>

definition upper_char :: "char \<Rightarrow> char" where
  "upper_char c =
     (case map_of (zip ''abcdefghijklmnopqrstuvwxyz'' ''ABCDEFGHIJKLMNOPQRSTUVWXYZ'') c of
        None \<Rightarrow> c | Some d \<Rightarrow> d)"

definition lower_char :: "char \<Rightarrow> char" where
  "lower_char c =
     (case map_of (zip ''ABCDEFGHIJKLMNOPQRSTUVWXYZ'' ''abcdefghijklmnopqrstuvwxyz'') c of
        None \<Rightarrow> c | Some d \<Rightarrow> d)"

definition upper :: "string \<Rightarrow> string" where
  "upper s = map upper_char s"

definition lower :: "string \<Rightarrow> string" where
  "lower s = map lower_char s"

text \<open>\<^verbatim>\<open>str(n)\<close> for an integer: its decimal digits, with a minus sign when negative.\<close>

fun str_nat :: "nat \<Rightarrow> string" where
  "str_nat n =
     (if n < 10 then [char_of (48 + n)] else str_nat (n div 10) @ [char_of (48 + n mod 10)])"

declare str_nat.simps [simp del]

definition str_int :: "int \<Rightarrow> string" where
  "str_int i = (if i < 0 then CHR ''-'' # str_nat (nat (- i)) else str_nat (nat i))"

text \<open>The substring test \<^verbatim>\<open>p in s\<close> of Python, by scanning the start positions of \<open>s\<close>.\<close>

fun py_in :: "string \<Rightarrow> string \<Rightarrow> bool" where
  "py_in p [] = (p = [])"
| "py_in p (c # cs) = (prefix p (c # cs) \<or> py_in p cs)"

subsection \<open>Floating-point numbers\<close>

text \<open>
  A Python \<^verbatim>\<open>float\<close> is an IEEE 754 binary64 number. A finite one is modelled by its
  exact value, a rational number; every operation computes the exact result and rounds it
  to the nearest binary64 value, ties to the even significand (\<open>fl\<close>). The model covers
  the normal range of binary64 (no overflow, no subnormal numbers), which the values of the
  predictor never leave.
\<close>

type_synonym double = rat

definition pow2 :: "int \<Rightarrow> rat" where
  "pow2 e = (if 0 \<le> e then 2 ^ nat e else 1 / 2 ^ nat (- e))"

text \<open>For \<open>0 < x\<close>, \<open>ilog2 x\<close> is the exponent \<open>e\<close> with \<open>2\<^sup>e \<le> x < 2\<^sup>e\<^sup>+\<^sup>1\<close>.\<close>

definition ilog2 :: "rat \<Rightarrow> int" where
  "ilog2 x =
     (if 1 \<le> x then int (floorlog 2 (nat \<lfloor>x\<rfloor>)) - 1
      else - int (floorlog 2 (nat (\<lceil>1 / x\<rceil> - 1))))"

definition round_half_even :: "rat \<Rightarrow> int" where
  "round_half_even q =
     (let n = \<lfloor>q\<rfloor>; r = q - of_int n
      in if r < 1 / 2 then n else if 1 / 2 < r then n + 1 else if even n then n else n + 1)"

text \<open>
  \<open>fl x\<close> is the binary64 number nearest to \<open>x\<close>: with \<open>u\<close> the spacing of the binary64
  numbers around \<open>\<bar>x\<bar>\<close>, the quotient \<open>\<bar>x\<bar> / u\<close> lies between \<open>2\<^sup>5\<^sup>2\<close> and \<open>2\<^sup>5\<^sup>3\<close> and
  is rounded to an integer, the 53-bit significand.
\<close>

definition fl :: "rat \<Rightarrow> double" where
  "fl x = (if x = 0 then 0
     else let u = pow2 (ilog2 \<bar>x\<bar> - 52)
          in sgn x * of_int (round_half_even (\<bar>x\<bar> / u)) * u)"

text \<open>\<^verbatim>\<open>a * b\<close> on floats, and the conversion of an \<^verbatim>\<open>int\<close> operand to a float.\<close>

definition fmul :: "double \<Rightarrow> double \<Rightarrow> double" where
  "fmul a b = fl (a * b)"

definition float_of_int :: "int \<Rightarrow> double" where
  "float_of_int n = fl (of_int n)"

text \<open>True division \<^verbatim>\<open>a / b\<close> of two integers (\<open>b \<noteq> 0\<close>): the correctly rounded quotient.\<close>

definition int_truediv :: "int \<Rightarrow> int \<Rightarrow> double" where
  "int_truediv a b = fl (of_int a / of_int b)"

text \<open>
  \<^verbatim>\<open>round(x, 1)\<close> on a float: the decimal number with one fractional digit nearest to the
  exact value of \<open>x\<close> (ties to even), converted back to a float.
\<close>

definition round1 :: "double \<Rightarrow> double" where
  "round1 x = fl (of_int (round_half_even (x * 10)) / 10)"

text \<open>\<^verbatim>\<open>int(x)\<close> on a float truncates towards zero.\<close>

definition int_of_float :: "double \<Rightarrow> int" where
  "int_of_float x = (if 0 \<le> x then \<lfloor>x\<rfloor> else \<lceil>x\<rceil>)"

section \<open>The reference tables of \<^verbatim>\<open>fps_predictor.py\<close>\<close>

text \<open>
  The tables are Python dictionaries with pairwise different keys; a dictionary iterates in
  insertion order, so each is an association list in the order of the source. A float
  literal denotes the binary64 number nearest to its decimal value.
\<close>

definition GPU_PERFORMANCE_INDEX :: "(string \<times> double) list" where
  "GPU_PERFORMANCE_INDEX =
    [(''RTX 4090'', fl (280 / 100)),
     (''RTX 4080 SUPER'', fl (230 / 100)),
     (''RTX 4080'', fl (215 / 100)),
     (''RTX 4070 TI SUPER'', fl (195 / 100)),
     (''RTX 4070 TI'', fl (180 / 100)),
     (''RTX 4070 SUPER'', fl (165 / 100)),
     (''RTX 4070'', fl (145 / 100)),
     (''RTX 4060 TI'', fl (125 / 100)),
     (''RTX 4060'', fl (110 / 100)),
     (''RTX 3090 TI'', fl (185 / 100)),
     (''RTX 3090'', fl (175 / 100)),
     (''RTX 3080 TI'', fl (170 / 100)),
     (''RTX 3080'', fl (155 / 100)),
     (''RTX 3070 TI'', fl (130 / 100)),
     (''RTX 3070'', fl (120 / 100)),
     (''RTX 3060 TI'', fl (110 / 100)),
     (''RTX 3060'', fl (100 / 100)),
     (''RTX 3050'', fl (70 / 100)),
     (''RTX 2080 TI'', fl (120 / 100)),
     (''RTX 2080 SUPER'', fl (105 / 100)),
     (''RTX 2080'', fl (95 / 100)),
     (''RTX 2070 SUPER'', fl (90 / 100)),
     (''RTX 2070'', fl (82 / 100)),
     (''RTX 2060 SUPER'', fl (78 / 100)),
     (''RTX 2060'', fl (70 / 100)),
     (''GTX 1660 TI'', fl (58 / 100)),
     (''GTX 1660 SUPER'', fl (55 / 100)),
     (''GTX 1660'', fl (50 / 100)),
     (''GTX 1650 SUPER'', fl (45 / 100)),
     (''GTX 1650'', fl (35 / 100)),
     (''GTX 1080 TI'', fl (85 / 100)),
     (''GTX 1080'', fl (68 / 100)),
     (''GTX 1070 TI'', fl (62 / 100)),
     (''GTX 1070'', fl (55 / 100)),
     (''GTX 1060'', fl (42 / 100)),
     (''GTX 1050 TI'', fl (28 / 100)),
     (''GTX 1050'', fl (22 / 100))]"

definition RESOLUTION_MULTIPLIERS :: "(string \<times> double) list" where
  "RESOLUTION_MULTIPLIERS =
    [(''1280x720'', fl (180 / 100)),
     (''1600x900'', fl (140 / 100)),
     (''1920x1080'', fl (100 / 100)),
     (''2560x1080'', fl (85 / 100)),
     (''2560x1440'', fl (65 / 100)),
     (''3440x1440'', fl (55 / 100)),
     (''3840x2160'', fl (35 / 100)),
     (''5120x2160'', fl (28 / 100))]"

definition QUALITY_MULTIPLIERS :: "(string \<times> double) list" where
  "QUALITY_MULTIPLIERS =
    [(''low'', fl (200 / 100)),
     (''medium'', fl (140 / 100)),
     (''high'', fl (100 / 100)),
     (''ultra'', fl (70 / 100)),
     (''extreme'', fl (50 / 100))]"

definition GAME_BASE_FPS :: "(string \<times> int) list" where
  "GAME_BASE_FPS =
    [(''Cyberpunk 2077'', 55),
     (''Elden Ring'', 58),
     (''Red Dead Redemption 2'', 52),
     (''Hogwarts Legacy'', 50),
     (''God of War Ragnarok'', 65),
     (''Baldur's Gate 3'', 60),
     (''Starfield'', 45),
     (''Alan Wake 2'', 40),
     (''Call of Duty: Warzone'', 95),
     (''Fortnite'', 120),
     (''Counter-Strike 2'', 180),
     (''Valorant'', 250),
     (''The Witcher 3: Wild Hunt'', 80),
     (''GTA V'', 100),
     (''Minecraft'', 150)]"

section \<open>The data classes\<close>

text \<open>
  \<^verbatim>\<open>GPUInfo\<close> (\<^verbatim>\<open>gpu_detector.py\<close>), with the fields the predictor reads and the
  architecture; \<^verbatim>\<open>GameRequirements\<close> and the built-in \<^verbatim>\<open>GAMES_DATABASE\<close>
  (\<^verbatim>\<open>game_analyzer.py\<close>), with the fields the predictor reads.
\<close>

record GPUInfo =
  name :: string
  vram_total :: int
  architecture :: string

record GameRequirements =
  recommended_vram :: int
  supports_dlss :: bool
  supports_fsr :: bool

definition GAMES_DATABASE :: "(string \<times> GameRequirements) list" where
  "GAMES_DATABASE =
    [(''Cyberpunk 2077'', \<lparr>recommended_vram = 8192, supports_dlss = True, supports_fsr = True\<rparr>),
     (''Elden Ring'', \<lparr>recommended_vram = 8192, supports_dlss = False, supports_fsr = False\<rparr>),
     (''Red Dead Redemption 2'', \<lparr>recommended_vram = 8192, supports_dlss = True, supports_fsr = True\<rparr>),
     (''Hogwarts Legacy'', \<lparr>recommended_vram = 8192, supports_dlss = True, supports_fsr = True\<rparr>),
     (''God of War Ragnarok'', \<lparr>recommended_vram = 8192, supports_dlss = True, supports_fsr = True\<rparr>),
     (''Baldur's Gate 3'', \<lparr>recommended_vram = 8192, supports_dlss = True, supports_fsr = True\<rparr>),
     (''Starfield'', \<lparr>recommended_vram = 8192, supports_dlss = True, supports_fsr = True\<rparr>),
     (''Alan Wake 2'', \<lparr>recommended_vram = 16384, supports_dlss = True, supports_fsr = True\<rparr>),
     (''Call of Duty: Warzone'', \<lparr>recommended_vram = 8192, supports_dlss = True, supports_fsr = True\<rparr>),
     (''Fortnite'', \<lparr>recommended_vram = 4096, supports_dlss = True, supports_fsr = True\<rparr>),
     (''Counter-Strike 2'', \<lparr>recommended_vram = 4096, supports_dlss = False, supports_fsr = False\<rparr>),
     (''Valorant'', \<lparr>recommended_vram = 4096, supports_dlss = False, supports_fsr = False\<rparr>),
     (''The Witcher 3: Wild Hunt'', \<lparr>recommended_vram = 8192, supports_dlss = True, supports_fsr = True\<rparr>),
     (''GTA V'', \<lparr>recommended_vram = 4096, supports_dlss = False, supports_fsr = False\<rparr>),
     (''Minecraft'', \<lparr>recommended_vram = 4096, supports_dlss = True, supports_fsr = False\<rparr>)]"

record FPSPrediction =
  game_name :: string
  gpu_name :: string
  resolution :: string
  quality_preset :: string
  fps_min :: int
  fps_max :: int
  fps_average :: int
  fps_1_percent_low :: int
  confidence :: string
  "notes" :: "string list"

section \<open>Name resolution\<close>

text \<open>
  \<^verbatim>\<open>GameAnalyzer.get_game_requirements\<close>: exact key, then the first name equal in lower
  case, then the first name that contains the lower-case input.
\<close>

definition get_game_requirements :: "string \<Rightarrow> GameRequirements option" where
  "get_game_requirements game =
     (case map_of GAMES_DATABASE game of
        Some game_data \<Rightarrow> Some game_data
      | None \<Rightarrow>
          (case find (\<lambda>item. lower (fst item) = lower game) GAMES_DATABASE of
             Some item \<Rightarrow> Some (snd item)
           | None \<Rightarrow>
               (case find (\<lambda>item. py_in (lower game) (lower (fst item))) GAMES_DATABASE of
                  Some item \<Rightarrow> Some (snd item)
                | None \<Rightarrow> None)))"

text \<open>
  \<^verbatim>\<open>_get_gpu_performance_index\<close>: the loop over the items of the table returns at the first
  model name whose upper-case form occurs in the upper-case GPU name; after the loop the
  conservative estimate 0.50 is returned.
\<close>

fun gpu_index_loop :: "(string \<times> double) list \<Rightarrow> string \<Rightarrow> double" where
  "gpu_index_loop [] gpu_name_upper = fl (50 / 100)"
| "gpu_index_loop ((model_name, index) # items) gpu_name_upper =
     (if py_in (upper model_name) gpu_name_upper then index
      else gpu_index_loop items gpu_name_upper)"

definition get_gpu_performance_index :: "string \<Rightarrow> double" where
  "get_gpu_performance_index gpu =
     (let gpu_name_upper = upper gpu
      in gpu_index_loop GPU_PERFORMANCE_INDEX gpu_name_upper)"

definition get_resolution_multiplier :: "string \<Rightarrow> double" where
  "get_resolution_multiplier res =
     (case map_of RESOLUTION_MULTIPLIERS res of Some m \<Rightarrow> m | None \<Rightarrow> fl 1)"

definition get_quality_multiplier :: "string \<Rightarrow> double" where
  "get_quality_multiplier quality =
     (case map_of QUALITY_MULTIPLIERS (lower quality) of Some m \<Rightarrow> m | None \<Rightarrow> fl 1)"

text \<open>
  \<^verbatim>\<open>_get_game_base_fps\<close>: the exact key first; then the first table name that contains
  the input or is contained in it, both in lower case; otherwise 60.
\<close>

definition get_game_base_fps :: "string \<Rightarrow> int" where
  "get_game_base_fps game =
     (case map_of GAME_BASE_FPS game of
        Some fps \<Rightarrow> fps
      | None \<Rightarrow>
          (case find (\<lambda>item. py_in (lower game) (lower (fst item)) \<or>
                               py_in (lower (fst item)) (lower game)) GAME_BASE_FPS of
             Some item \<Rightarrow> snd item
           | None \<Rightarrow> 60))"

section \<open>\<^verbatim>\<open>FPSPredictor.predict\<close>\<close>

definition predict :: "GPUInfo \<Rightarrow> string \<Rightarrow> string \<Rightarrow> string \<Rightarrow> FPSPrediction" where
  "predict gpu_info game res preset =
     (let gpu_index = get_gpu_performance_index (name gpu_info);
          res_multiplier = get_resolution_multiplier res;
          quality_multiplier = get_quality_multiplier preset;
          base_fps = get_game_base_fps game;
          predicted_fps =
            fmul (fmul (fmul (float_of_int base_fps) gpu_index) res_multiplier) quality_multiplier;
          average = int_of_float predicted_fps;
          minimum = int_of_float (fmul predicted_fps (fl (75 / 100)));
          maximum = int_of_float (fmul predicted_fps (fl (115 / 100)));
          one_percent_low = int_of_float (fmul predicted_fps (fl (60 / 100)));
          gpu_in_db =
            list_ex (\<lambda>model. py_in (upper model) (upper (name gpu_info)))
              (map fst GPU_PERFORMANCE_INDEX);
          game_in_db =
            (game \<in> set (map fst GAME_BASE_FPS) \<or>
             list_ex (\<lambda>n. py_in (lower game) (lower n)) (map fst GAME_BASE_FPS));
          conf =
            (if gpu_in_db \<and> game_in_db then ''high''
             else if gpu_in_db \<or> game_in_db then ''medium''
             else ''low'');
          vram_notes =
            (case get_game_requirements game of
               None \<Rightarrow> []
             | Some game_req \<Rightarrow>
                 (if vram_total gpu_info < recommended_vram game_req
                  then [''VRAM ('' @ str_int (vram_total gpu_info) @ ''MB) is below recommended (''
                          @ str_int (recommended_vram game_req)
                          @ ''MB). May experience stuttering.'']
                  else []) @
                 (if supports_dlss game_req \<and> py_in ''RTX'' (upper (name gpu_info))
                  then [''DLSS available - can boost FPS by 30-60%'']
                  else if supports_fsr game_req
                  then [''FSR available - can boost FPS by 20-40%'']
                  else []));
          resolution_notes =
            (if res \<in> set [''3840x2160'', ''5120x2160'']
             then [''4K gaming is very demanding. Consider DLSS/FSR for better performance.'']
             else []);
          quality_notes =
            (if lower preset = ''ultra'' \<and> average < 60
             then [''Consider reducing to High for smoother gameplay.'']
             else [])
      in \<lparr>game_name = game,
          gpu_name = name gpu_info,
          resolution = res,
          quality_preset = preset,
          fps_min = minimum,
          fps_max = maximum,
          fps_average = average,
          fps_1_percent_low = one_percent_low,
          confidence = conf,
          notes = vram_notes @ resolution_notes @ quality_notes\<rparr>)"

section \<open>\<^verbatim>\<open>FPSPredictor.find_optimal_settings\<close>\<close>

text \<open>
  The dictionary returned by the search: the key \<^verbatim>\<open>warning\<close> is present only in the
  fall-back case.
\<close>

record Config =
  config_resolution :: string
  config_quality_preset :: string
  config_prediction :: FPSPrediction
  config_warning :: "string option"

text \<open>
  The state of the loops is the variable \<^verbatim>\<open>best_config\<close> together with the list of the
  (resolution, preset) pairs for which \<^verbatim>\<open>predict\<close> has been called so far, in call order.
  The list is not a variable of the source; it records which combinations were evaluated.
\<close>

type_synonym search_state = "Config option \<times> (string \<times> string) list"

text \<open>Quality priority: the inner loop breaks at its first hit, the outer loop once a
  configuration is set.\<close>

fun quality_presets_loop ::
  "GPUInfo \<Rightarrow> string \<Rightarrow> int \<Rightarrow> string \<Rightarrow> string list \<Rightarrow> search_state \<Rightarrow> search_state" where
  "quality_presets_loop gpu_info game target_fps res [] st = st"
| "quality_presets_loop gpu_info game target_fps res (preset # presets) (best_config, calls) =
     (let prediction = predict gpu_info game res preset;
          calls' = calls @ [(res, preset)]
      in if target_fps \<le> fps_average prediction
         then ((if best_config = None
                then Some \<lparr>config_resolution = res, config_quality_preset = preset,
                           config_prediction = prediction, config_warning = None\<rparr>
                else best_config), calls')
         else quality_presets_loop gpu_info game target_fps res presets (best_config, calls'))"

fun quality_resolutions_loop ::
  "GPUInfo \<Rightarrow> string \<Rightarrow> int \<Rightarrow> string list \<Rightarrow> string list \<Rightarrow> search_state \<Rightarrow> search_state" where
  "quality_resolutions_loop gpu_info game target_fps [] presets st = st"
| "quality_resolutions_loop gpu_info game target_fps (res # resolutions) presets st =
     (let st' = quality_presets_loop gpu_info game target_fps res presets st
      in if fst st' = None
         then quality_resolutions_loop gpu_info game target_fps resolutions presets st'
         else st')"

text \<open>Performance priority: no break; every hit overwrites \<^verbatim>\<open>best_config\<close>.\<close>

fun performance_presets_loop ::
  "GPUInfo \<Rightarrow> string \<Rightarrow> int \<Rightarrow> string \<Rightarrow> string list \<Rightarrow> search_state \<Rightarrow> search_state" where
  "performance_presets_loop gpu_info game target_fps res [] st = st"
| "performance_presets_loop gpu_info game target_fps res (preset # presets) (best_config, calls) =
     (let prediction = predict gpu_info game res preset;
          calls' = calls @ [(res, preset)]
      in performance_presets_loop gpu_info game target_fps res presets
           ((if target_fps \<le> fps_average prediction
             then Some \<lparr>config_resolution = res, config_quality_preset = preset,
                        config_prediction = prediction, config_warning = None\<rparr>
             else best_config), calls'))"

fun performance_resolutions_loop ::
  "GPUInfo \<Rightarrow> string \<Rightarrow> int \<Rightarrow> string list \<Rightarrow> string list \<Rightarrow> search_state \<Rightarrow> search_state" where
  "performance_resolutions_loop gpu_info game target_fps [] presets st = st"
| "performance_resolutions_loop gpu_info game target_fps (res # resolutions) presets st =
     performance_resolutions_loop gpu_info game target_fps resolutions presets
       (performance_presets_loop gpu_info game target_fps res presets st)"

definition resolutions :: "string list" where
  "resolutions = [''3840x2160'', ''2560x1440'', ''1920x1080'', ''1280x720'']"

definition presets_list :: "string list" where
  "presets_list = [''ultra'', ''high'', ''medium'', ''low'']"

text \<open>The search with its call list, and the function of the source, which returns the
  configuration alone.\<close>

definition find_optimal_settings_calls ::
  "GPUInfo \<Rightarrow> string \<Rightarrow> int \<Rightarrow> bool \<Rightarrow> Config \<times> (string \<times> string) list" where
  "find_optimal_settings_calls gpu_info game target_fps prefer_quality =
     (let st =
            (if prefer_quality
             then quality_resolutions_loop gpu_info game target_fps
                    resolutions presets_list (None, [])
             else performance_resolutions_loop gpu_info game target_fps
                    (rev resolutions) (rev presets_list) (None, []))
      in case fst st of
           Some best_config \<Rightarrow> (best_config, snd st)
         | None \<Rightarrow>
             (\<lparr>config_resolution = ''1280x720'', config_quality_preset = ''low'',
               config_prediction = predict gpu_info game ''1280x720'' ''low'',
               config_warning =
                 Some (''Cannot achieve '' @ str_int target_fps
                         @ '' FPS even at lowest settings'')\<rparr>,
              snd st @ [(''1280x720'', ''low'')]))"

definition find_optimal_settings :: "GPUInfo \<Rightarrow> string \<Rightarrow> int \<Rightarrow> bool \<Rightarrow> Config" where
  "find_optimal_settings gpu_info game target_fps prefer_quality =
     fst (find_optimal_settings_calls gpu_info game target_fps prefer_quality)"

section \<open>\<^verbatim>\<open>FPSPredictor.compare_gpus\<close>\<close>

record Comparison =
  gpu1_name :: string
  gpu1_fps :: int
  gpu2_name :: string
  gpu2_fps :: int
  fps_difference :: int
  percentage_difference :: double
  faster_gpu :: string
  cmp_game :: string
  cmp_resolution :: string
  cmp_quality :: string

definition compare_gpus :: "GPUInfo \<Rightarrow> string \<Rightarrow> string \<Rightarrow> string \<Rightarrow> string \<Rightarrow> Comparison" where
  "compare_gpus gpu1_info gpu2 game res preset =
     (let pred1 = predict gpu1_info game res preset;
          gpu2_index = get_gpu_performance_index gpu2;
          base_fps = get_game_base_fps game;
          res_multiplier = get_resolution_multiplier res;
          quality_multiplier = get_quality_multiplier preset;
          fps2 = int_of_float
            (fmul (fmul (fmul (float_of_int base_fps) gpu2_index) res_multiplier)
               quality_multiplier);
          difference = fps2 - fps_average pred1;
          percentage =
            (if 0 < fps_average pred1
             then fmul (int_truediv difference (fps_average pred1)) (float_of_int 100)
             else 0)
      in \<lparr>gpu1_name = name gpu1_info,
          gpu1_fps = fps_average pred1,
          gpu2_name = gpu2,
          gpu2_fps = fps2,
          fps_difference = difference,
          percentage_difference = round1 percentage,
          faster_gpu = (if 0 < difference then gpu2 else name gpu1_info),
          cmp_game = game,
          cmp_resolution = res,
          cmp_quality = preset\<rparr>)"

section \<open>Vocabulary of the prediction properties\<close>

text \<open>
  The value of the local variable \<^verbatim>\<open>predicted_fps\<close> of \<^verbatim>\<open>predict\<close>, as a function of the GPU
  name, the game, the resolution and the preset; and the keys of the performance-index
  table, in table order.
\<close>

definition predicted_fps :: "string \<Rightarrow> string \<Rightarrow> string \<Rightarrow> string \<Rightarrow> double" where
  "predicted_fps gpu game res preset =
     fmul (fmul (fmul (float_of_int (get_game_base_fps game)) (get_gpu_performance_index gpu))
       (get_resolution_multiplier res)) (get_quality_multiplier preset)"

text \<open>
  \<open>quality_ordered y\<close>: the truncated products of \<open>y\<close> with the multipliers of the presets
  ultra, high, medium and low are strictly increasing in this order.
\<close>

definition quality_ordered :: "double \<Rightarrow> bool" where
  "quality_ordered y \<longleftrightarrow>
     int_of_float (fmul y (fl (70 / 100))) < int_of_float (fmul y (fl (100 / 100))) \<and>
     int_of_float (fmul y (fl (100 / 100))) < int_of_float (fmul y (fl (140 / 100))) \<and>
     int_of_float (fmul y (fl (140 / 100))) < int_of_float (fmul y (fl (200 / 100)))"

definition gpu_models :: "string list" where
  "gpu_models =
    [''RTX 4090'',
     ''RTX 4080 SUPER'',
     ''RTX 4080'',
     ''RTX 4070 TI SUPER'',
     ''RTX 4070 TI'',
     ''RTX 4070 SUPER'',
     ''RTX 4070'',
     ''RTX 4060 TI'',
     ''RTX 4060'',
     ''RTX 3090 TI'',
     ''RTX 3090'',
     ''RTX 3080 TI'',
     ''RTX 3080'',
     ''RTX 3070 TI'',
     ''RTX 3070'',
     ''RTX 3060 TI'',
     ''RTX 3060'',
     ''RTX 3050'',
     ''RTX 2080 TI'',
     ''RTX 2080 SUPER'',
     ''RTX 2080'',
     ''RTX 2070 SUPER'',
     ''RTX 2070'',
     ''RTX 2060 SUPER'',
     ''RTX 2060'',
     ''GTX 1660 TI'',
     ''GTX 1660 SUPER'',
     ''GTX 1660'',
     ''GTX 1650 SUPER'',
     ''GTX 1650'',
     ''GTX 1080 TI'',
     ''GTX 1080'',
     ''GTX 1070 TI'',
     ''GTX 1070'',
     ''GTX 1060'',
     ''GTX 1050 TI'',
     ''GTX 1050'']"

section \<open>Vocabulary of the search properties\<close>

text \<open>
  A combination \<open>c = (resolution, preset)\<close> reaches the target when the average of its
  prediction is at least the target; \<open>config_of\<close> is the dictionary the loops store for it,
  \<open>fallback_config\<close> the one built after the loops when nothing was stored. The scan orders
  are the orders in which the two nested loops visit the grid.
\<close>

definition reaches :: "GPUInfo \<Rightarrow> string \<Rightarrow> int \<Rightarrow> string \<times> string \<Rightarrow> bool" where
  "reaches gpu_info game target_fps c =
     (target_fps \<le> fps_average (predict gpu_info game (fst c) (snd c)))"

definition fallback_config :: "GPUInfo \<Rightarrow> string \<Rightarrow> int \<Rightarrow> Config" where
  "fallback_config gpu_info game target_fps =
     \<lparr>config_resolution = ''1280x720'', config_quality_preset = ''low'',
      config_prediction = predict gpu_info game ''1280x720'' ''low'',
      config_warning =
        Some (''Cannot achieve '' @ str_int target_fps @ '' FPS even at lowest settings'')\<rparr>"

definition quality_scan :: "(string \<times> string) list" where
  "quality_scan = List.product resolutions presets_list"

definition performance_scan :: "(string \<times> string) list" where
  "performance_scan = List.product (rev resolutions) (rev presets_list)"

definition config_of :: "GPUInfo \<Rightarrow> string \<Rightarrow> string \<times> string \<Rightarrow> Config" where
  "config_of gpu_info game c =
     \<lparr>config_resolution = fst c, config_quality_preset = snd c,
      config_prediction = predict gpu_info game (fst c) (snd c), config_warning = None\<rparr>"

section \<open>The formulas of the specification\<close>

text \<open>
  Two formulas in the words of the specification, for comparison with the code: the quality
  factor looked up under the quality string as given (neutral 1.0 when that string is not a
  key of the table), with the raw frame rate built from it; and the percentage difference
  as the guarded quotient times 100. \<open>rtx_3070\<close> is the GPU descriptor of the test suite
  (\<^verbatim>\<open>tests/test_fps_predictor.py\<close>).
\<close>

definition rtx_3070 :: GPUInfo where
  "rtx_3070 =
     \<lparr>name = ''NVIDIA GeForce RTX 3070'', vram_total = 8192, architecture = ''Ampere''\<rparr>"

definition claimed_quality_factor :: "string \<Rightarrow> double" where
  "claimed_quality_factor preset =
     (case map_of QUALITY_MULTIPLIERS preset of Some m \<Rightarrow> m | None \<Rightarrow> 1)"

definition claimed_raw_fps :: "GPUInfo \<Rightarrow> string \<Rightarrow> string \<Rightarrow> string \<Rightarrow> double" where
  "claimed_raw_fps gpu_info game res preset =
     fmul (fmul (fmul (float_of_int (get_game_base_fps game))
                      (get_gpu_performance_index (name gpu_info)))
                (get_resolution_multiplier res))
          (claimed_quality_factor preset)"

definition claimed_percentage :: "int \<Rightarrow> int \<Rightarrow> double" where
  "claimed_percentage difference average =
     (if average = 0 then 0
      else fmul (int_truediv difference average) (float_of_int 100))"

section \<open>Properties of the rounding function\<close>

lemma pow2_powi: "pow2 e = 2 powi e"
  by (simp add: pow2_def power_int_def power_one_over inverse_eq_divide)

lemma pow2_pos [simp]: "0 < pow2 e"
  by (simp add: pow2_powi)

lemma pow2_nonzero [simp]: "pow2 e \<noteq> 0"
  by (simp add: pow2_powi)

lemma pow2_abs [simp]: "\<bar>pow2 e\<bar> = pow2 e"
  by (simp add: abs_of_pos)

lemma pow2_nonneg [simp]: "0 \<le> pow2 e"
  by (simp add: less_imp_le)

lemma pow2_add: "pow2 (a + b) = pow2 a * pow2 b"
  by (simp add: pow2_powi power_int_add)

lemma pow2_Suc: "pow2 (e + 1) = 2 * pow2 e"
  by (simp add: pow2_powi power_int_add)

lemma pow2_nat: "pow2 (int k) = 2 ^ k"
  by (simp add: pow2_def)

lemma pow2_neg_nat: "pow2 (- int k) = 1 / 2 ^ k"
  by (simp add: pow2_powi power_int_minus_divide)

lemma pow2_mono: "a \<le> b \<Longrightarrow> pow2 a \<le> pow2 b"
  by (simp add: pow2_powi power_int_increasing)

lemma pow2_strict_mono: "a < b \<Longrightarrow> pow2 a < pow2 b"
  by (simp add: pow2_powi power_int_strict_increasing)

lemma pow2_le_iff: "pow2 a \<le> pow2 b \<longleftrightarrow> a \<le> b"
  by (meson linorder_not_less pow2_mono pow2_strict_mono)

lemma pow2_less_iff: "pow2 a < pow2 b \<longleftrightarrow> a < b"
  by (meson linorder_not_less pow2_mono pow2_strict_mono)

lemma pow2_split52: "pow2 e = 2 ^ 52 * pow2 (e - 52)"
proof -
  have "pow2 (52 + (e - 52)) = pow2 52 * pow2 (e - 52)" by (rule pow2_add)
  moreover have "pow2 52 = 2 ^ 52" using pow2_nat [of 52] by simp
  ultimately show ?thesis by simp
qed

lemma pow2_split53: "pow2 (e + 1) = 2 ^ 53 * pow2 (e - 52)"
proof -
  have "pow2 (53 + (e - 52)) = pow2 53 * pow2 (e - 52)" by (rule pow2_add)
  moreover have "pow2 53 = 2 ^ 53" using pow2_nat [of 53] by simp
  moreover have "53 + (e - 52) = e + 1" by simp
  ultimately show ?thesis by simp
qed

lemma pow2_split51: "pow2 (e + 1 - 52) = 2 * pow2 (e - 52)"
  using pow2_Suc [of "e - 52"] by (simp add: algebra_simps)

lemma pow2_split51': "pow2 (e - 51) = 2 * pow2 (e - 52)"
  using pow2_split51 [of e] by simp

lemma ilog2_bounds:
  assumes "0 < x"
  shows "pow2 (ilog2 x) \<le> x \<and> x < pow2 (ilog2 x + 1)"
proof (cases "1 \<le> x")
  case True
  define n where "n = nat \<lfloor>x\<rfloor>"
  define k where "k = floorlog 2 n"
  have n: "0 < n" using True by (simp add: n_def)
  have nx: "of_nat n \<le> x" "x < of_nat n + 1"
    using True by (simp_all add: n_def of_nat_nat) linarith+
  have b: "2 ^ (k - 1) \<le> n" "n < 2 ^ k"
    using floorlog_bounds [of n 2] n by (simp_all add: k_def)
  have k: "0 < k" using b n by (cases k) auto
  have e: "ilog2 x = int k - 1"
    using True by (simp add: ilog2_def k_def n_def)
  have "pow2 (int k - 1) = 2 ^ (k - 1)"
    using k by (simp add: pow2_def nat_diff_distrib')
  also have "\<dots> \<le> of_nat n"
    using b(1) by (metis of_nat_le_iff of_nat_numeral of_nat_power)
  finally have lo: "pow2 (ilog2 x) \<le> x" using nx unfolding e by linarith
  have "of_nat n + 1 \<le> (2::rat) ^ k"
    using b(2) by (metis Suc_leI of_nat_Suc of_nat_le_iff of_nat_numeral of_nat_power add.commute)
  then have "x < pow2 (int k)" using nx unfolding pow2_nat by linarith
  then show ?thesis using lo e by simp
next
  case False
  define y where "y = 1 / x"
  define m where "m = nat (\<lceil>y\<rceil> - 1)"
  define k where "k = floorlog 2 m"
  have y: "1 < y" using False assms by (simp add: y_def)
  then have c: "2 \<le> \<lceil>y\<rceil>" by linarith
  then have m: "0 < m" by (simp add: m_def)
  have my: "of_nat m < y" "y \<le> of_nat m + 1"
    using c by (simp_all add: m_def of_nat_nat) linarith+
  have b: "2 ^ (k - 1) \<le> m" "m < 2 ^ k"
    using floorlog_bounds [of m 2] m by (simp_all add: k_def)
  have k: "0 < k" using b m by (cases k) auto
  have e: "ilog2 x = - int k"
    using False by (simp add: ilog2_def k_def m_def y_def)
  have "(2::rat) ^ (k - 1) \<le> of_nat m"
    using b(1) by (metis of_nat_le_iff of_nat_numeral of_nat_power)
  then have y1: "(2::rat) ^ (k - 1) < y" using my by linarith
  have "of_nat m + 1 \<le> (2::rat) ^ k"
    using b(2) by (metis Suc_leI of_nat_Suc of_nat_le_iff of_nat_numeral of_nat_power add.commute)
  then have y2: "y \<le> 2 ^ k" using my by linarith
  have x: "x = 1 / y" using assms by (simp add: y_def)
  have p1: "pow2 (- int k) = 1 / 2 ^ k"
    by (rule pow2_neg_nat)
  have p2: "pow2 (- int k + 1) = 1 / 2 ^ (k - 1)"
    using k by (cases k) (simp_all add: pow2_neg_nat)
  have "1 / 2 ^ k \<le> 1 / y" using y2 y by (simp add: frac_le)
  moreover have "1 / y < 1 / 2 ^ (k - 1)" using y1 by (simp add: frac_less2)
  ultimately show ?thesis using e p1 p2 x by simp
qed

lemma ilog2_unique:
  assumes "0 < x" "pow2 e \<le> x" "x < pow2 (e + 1)"
  shows "ilog2 x = e"
proof -
  have b: "pow2 (ilog2 x) \<le> x" "x < pow2 (ilog2 x + 1)"
    using ilog2_bounds [OF assms(1)] by simp_all
  have "pow2 (ilog2 x) < pow2 (e + 1)" using b(1) assms(3) by simp
  then have "ilog2 x < e + 1" by (simp add: pow2_less_iff)
  moreover have "pow2 e < pow2 (ilog2 x + 1)" using b(2) assms(2) by simp
  then have "e < ilog2 x + 1" by (simp add: pow2_less_iff)
  ultimately show ?thesis by simp
qed

lemma ilog2_mono:
  assumes "0 < x" "x \<le> y"
  shows "ilog2 x \<le> ilog2 y"
proof -
  have "pow2 (ilog2 x) \<le> x" using ilog2_bounds assms by simp
  also have "x \<le> y" by fact
  also have "y < pow2 (ilog2 y + 1)" using ilog2_bounds [of y] assms by simp
  finally have "ilog2 x < ilog2 y + 1" by (simp add: pow2_less_iff)
  then show ?thesis by simp
qed


lemma round_half_even_of_int [simp]: "round_half_even (of_int n) = n"
  by (simp add: round_half_even_def)

lemma round_half_even_numeral [simp]: "round_half_even (numeral n) = numeral n"
  using round_half_even_of_int [of "numeral n"] by simp

lemma round_half_even_floor:
  "round_half_even q = \<lfloor>q\<rfloor> \<or> round_half_even q = \<lfloor>q\<rfloor> + 1"
  by (simp add: round_half_even_def Let_def)

lemma round_half_even_error: "\<bar>of_int (round_half_even q) - q\<bar> \<le> 1 / 2"
proof -
  have "of_int \<lfloor>q\<rfloor> \<le> q" "q < of_int \<lfloor>q\<rfloor> + 1" by linarith+
  then show ?thesis
    by (auto simp: round_half_even_def Let_def abs_le_iff)
qed

lemma round_half_even_mono:
  assumes "q \<le> q'"
  shows "round_half_even q \<le> round_half_even q'"
proof (cases "\<lfloor>q\<rfloor> = \<lfloor>q'\<rfloor>")
  case True
  with assms show ?thesis
    by (auto simp: round_half_even_def Let_def)
next
  case False
  then have "\<lfloor>q\<rfloor> + 1 \<le> \<lfloor>q'\<rfloor>"
    using floor_mono [OF assms] by simp
  moreover have "round_half_even q \<le> \<lfloor>q\<rfloor> + 1"
    using round_half_even_floor [of q] by auto
  moreover have "\<lfloor>q'\<rfloor> \<le> round_half_even q'"
    using round_half_even_floor [of q'] by auto
  ultimately show ?thesis by simp
qed

lemma fl_0 [simp]: "fl 0 = 0"
  by (simp add: fl_def)

lemma fl_pos:
  "0 < x \<Longrightarrow> fl x = of_int (round_half_even (x / pow2 (ilog2 x - 52))) * pow2 (ilog2 x - 52)"
  by (simp add: fl_def Let_def)

lemma scaled_bounds:
  assumes "0 < x"
  shows "2 ^ 52 \<le> x / pow2 (ilog2 x - 52)" "x / pow2 (ilog2 x - 52) < 2 ^ 53"
proof -
  have b: "2 ^ 52 * pow2 (ilog2 x - 52) \<le> x" "x < 2 ^ 53 * pow2 (ilog2 x - 52)"
    using ilog2_bounds [OF assms] pow2_split52 [of "ilog2 x"] pow2_split53 [of "ilog2 x"]
    by simp_all
  show "2 ^ 52 \<le> x / pow2 (ilog2 x - 52)"
    using b(1) by (simp add: le_divide_eq)
  show "x / pow2 (ilog2 x - 52) < 2 ^ 53"
    using b(2) by (simp add: divide_less_eq)
qed

lemma significand_bounds:
  assumes "0 < x"
  shows "2 ^ 52 \<le> round_half_even (x / pow2 (ilog2 x - 52))"
    "round_half_even (x / pow2 (ilog2 x - 52)) \<le> 2 ^ 53"
proof -
  have "round_half_even (of_int (2 ^ 52)) \<le> round_half_even (x / pow2 (ilog2 x - 52))"
    using scaled_bounds(1) [OF assms] by (intro round_half_even_mono) simp
  then show "2 ^ 52 \<le> round_half_even (x / pow2 (ilog2 x - 52))"
    by (simp only: round_half_even_of_int)
  have "round_half_even (x / pow2 (ilog2 x - 52)) \<le> round_half_even (of_int (2 ^ 53))"
    using scaled_bounds(2) [OF assms] by (intro round_half_even_mono) simp
  then show "round_half_even (x / pow2 (ilog2 x - 52)) \<le> 2 ^ 53"
    by (simp only: round_half_even_of_int)
qed

lemma fl_bounds:
  assumes "0 < x"
  shows "pow2 (ilog2 x) \<le> fl x" "fl x \<le> pow2 (ilog2 x + 1)"
proof -
  let ?u = "pow2 (ilog2 x - 52)"
  let ?m = "round_half_even (x / ?u)"
  have e: "pow2 (ilog2 x) = 2 ^ 52 * ?u" "pow2 (ilog2 x + 1) = 2 ^ 53 * ?u"
    by (rule pow2_split52, rule pow2_split53)
  have "(2::rat) ^ 52 \<le> of_int ?m"
    using significand_bounds(1) [OF assms] by (metis of_int_le_iff of_int_numeral of_int_power)
  then show "pow2 (ilog2 x) \<le> fl x"
    unfolding e fl_pos [OF assms] by (simp add: mult_right_mono)
  have "of_int ?m \<le> (2::rat) ^ 53"
    using significand_bounds(2) [OF assms] by (metis of_int_le_iff of_int_numeral of_int_power)
  then show "fl x \<le> pow2 (ilog2 x + 1)"
    unfolding e fl_pos [OF assms] by (simp add: mult_right_mono)
qed

lemma fl_positive: "0 < x \<Longrightarrow> 0 < fl x"
  using fl_bounds(1) [of x] pow2_pos [of "ilog2 x"] by linarith

lemma fl_nonneg: "0 \<le> x \<Longrightarrow> 0 \<le> fl x"
  using fl_positive [of x] by (cases "x = 0") auto

lemma fl_mono_pos:
  assumes "0 < x" "x \<le> y"
  shows "fl x \<le> fl y"
proof (cases "ilog2 x = ilog2 y")
  case True
  have y: "0 < y" using assms by simp
  have "x / pow2 (ilog2 y - 52) \<le> y / pow2 (ilog2 y - 52)"
    by (rule divide_right_mono) (use assms in \<open>simp_all add: less_imp_le\<close>)
  then have "round_half_even (x / pow2 (ilog2 y - 52)) \<le> round_half_even (y / pow2 (ilog2 y - 52))"
    by (rule round_half_even_mono)
  then show ?thesis
    unfolding fl_pos [OF assms(1)] fl_pos [OF y] True
    by (simp add: mult_right_mono)
next
  case False
  have y: "0 < y" using assms by simp
  have "ilog2 x + 1 \<le> ilog2 y"
    using False ilog2_mono [OF assms] by simp
  then have "pow2 (ilog2 x + 1) \<le> pow2 (ilog2 y)" by (rule pow2_mono)
  then show ?thesis
    using fl_bounds(2) [OF assms(1)] fl_bounds(1) [OF y] by linarith
qed

lemma fl_mono: "0 \<le> x \<Longrightarrow> x \<le> y \<Longrightarrow> fl x \<le> fl y"
  using fl_mono_pos [of x y] fl_nonneg [of y] by (cases "x = 0") auto

lemma fl_idem:
  assumes "0 \<le> x"
  shows "fl (fl x) = fl x"
proof (cases "x = 0")
  case True
  then show ?thesis by simp
next
  case False
  then have x: "0 < x" using assms by simp
  let ?e = "ilog2 x"
  let ?u = "pow2 (?e - 52)"
  let ?m = "round_half_even (x / ?u)"
  have v: "fl x = of_int ?m * ?u" by (rule fl_pos [OF x])
  have vpos: "0 < fl x" by (rule fl_positive [OF x])
  have e: "pow2 (?e + 1) = 2 ^ 53 * ?u" "pow2 (?e - 51) = 2 * ?u"
    by (rule pow2_split53, rule pow2_split51')
  show ?thesis
  proof (cases "?m = 2 ^ 53")
    case True
    then have v2: "fl x = pow2 (?e + 1)" by (simp add: v e)
    have "ilog2 (fl x) = ?e + 1"
      by (rule ilog2_unique) (simp_all add: v2 pow2_less_iff)
    then have "fl (fl x) = of_int (round_half_even (fl x / (2 * ?u))) * (2 * ?u)"
      by (simp add: fl_pos [OF vpos] e)
    also have "fl x / (2 * ?u) = of_int (2 ^ 52)"
      by (simp add: v2 e)
    also have "of_int (round_half_even (of_int (2 ^ 52))) * (2 * ?u) = fl x"
      by (simp add: v2 e)
    finally show ?thesis .
  next
    case False
    then have "?m < 2 ^ 53" using significand_bounds(2) [OF x] by simp
    then have "of_int ?m < (2::rat) ^ 53"
      by (metis of_int_less_iff of_int_numeral of_int_power)
    then have "fl x < pow2 (?e + 1)"
      unfolding v e by (simp add: mult_strict_right_mono)
    then have "ilog2 (fl x) = ?e"
      using fl_bounds(1) [OF x] vpos by (intro ilog2_unique) simp_all
    then have "fl (fl x) = of_int (round_half_even (fl x / ?u)) * ?u"
      by (simp add: fl_pos [OF vpos])
    also have "fl x / ?u = of_int ?m" by (simp add: v)
    finally show ?thesis by (simp add: v)
  qed
qed

lemma fl_error:
  assumes "0 < x"
  shows "\<bar>fl x - x\<bar> \<le> x / 2 ^ 53"
proof -
  let ?u = "pow2 (ilog2 x - 52)"
  let ?q = "x / ?u"
  have "fl x - x = (of_int (round_half_even ?q) - ?q) * ?u"
    by (simp add: fl_pos [OF assms] left_diff_distrib)
  then have "\<bar>fl x - x\<bar> = \<bar>of_int (round_half_even ?q) - ?q\<bar> * ?u"
    by (simp add: abs_mult)
  also have "\<dots> \<le> 1 / 2 * ?u"
    by (intro mult_right_mono round_half_even_error) simp
  also have "?u \<le> x / 2 ^ 52"
    using scaled_bounds(1) [OF assms] by (simp add: le_divide_eq mult.commute)
  finally show ?thesis by simp
qed

lemma fl_double:
  assumes "0 < x"
  shows "fl (2 * x) = 2 * fl x"
proof -
  have a: "pow2 (ilog2 x + 1) \<le> 2 * x"
    using ilog2_bounds [OF assms] unfolding pow2_Suc by linarith
  have b: "2 * x < pow2 (ilog2 x + 1 + 1)"
    using ilog2_bounds [OF assms] unfolding pow2_Suc by linarith
  have "ilog2 (2 * x) = ilog2 x + 1"
    using assms by (intro ilog2_unique a b) simp
  moreover have "pow2 (ilog2 x + 1 - 52) = 2 * pow2 (ilog2 x - 52)"
    by (rule pow2_split51)
  ultimately show ?thesis
    using assms by (simp add: fl_pos)
qed

section \<open>Properties of the name resolution\<close>

lemma gpu_index_loop_find:
  "gpu_index_loop items s =
     (case find (\<lambda>item. py_in (upper (fst item)) s) items of
        None \<Rightarrow> fl (50 / 100)
      | Some item \<Rightarrow> snd item)"
  by (induction items) auto

text \<open>
  Claim C8. The processor index is the multiplier of the first entry of the
  performance-index table, in the order of the table, whose pattern occurs in the name
  when both are compared in upper case; when no pattern occurs, it is the default 0.50.
\<close>

theorem gpu_index_first_match:
  "get_gpu_performance_index n =
     (case find (\<lambda>item. py_in (upper (fst item)) (upper n)) GPU_PERFORMANCE_INDEX of
        None \<Rightarrow> fl (50 / 100)
      | Some item \<Rightarrow> snd item)"
  by (simp add: get_gpu_performance_index_def gpu_index_loop_find)

section \<open>Evaluation rules\<close>

text \<open>
  Concrete inputs are evaluated by rewriting: the rounding function unfolds to integer
  arithmetic on numerals, and a GPU name is resolved by searching the key list.
\<close>

lemma floorlog_numeral: "floorlog 2 (numeral n) = floorlog 2 (numeral n div 2) + 1"
  by (subst compute_floorlog) simp

lemma floorlog_small: "floorlog 2 0 = 0" "floorlog 2 1 = 1" "floorlog 2 (Suc 0) = 1"
  by (simp_all add: compute_floorlog)

lemma floor_rat_numeral: "\<lfloor>numeral a / numeral b :: rat\<rfloor> = numeral a div numeral b"
  by (metis floor_divide_of_int_eq of_int_numeral)

lemma ceiling_rat_numeral: "\<lceil>numeral a / numeral b :: rat\<rceil> = - (- numeral a div numeral b)"
  by (metis ceiling_def floor_divide_of_int_eq minus_divide_left of_int_minus of_int_numeral)

lemmas fl_eval = fl_def ilog2_def pow2_def round_half_even_def Let_def fmul_def float_of_int_def
  int_of_float_def int_truediv_def round1_def
  floorlog_numeral floorlog_small floor_rat_numeral ceiling_rat_numeral

lemma gpu_models_keys: "map fst GPU_PERFORMANCE_INDEX = gpu_models"
  by (simp add: GPU_PERFORMANCE_INDEX_def gpu_models_def)

lemma find_fst_keys:
  "find (\<lambda>item. P (fst item)) items =
     (case find P (map fst items) of
        None \<Rightarrow> None
      | Some k \<Rightarrow> map_option (Pair k) (map_of items k))"
proof (induction items)
  case Nil
  show ?case by simp
next
  case (Cons item items)
  show ?case
  proof (cases "P (fst item)")
    case True
    then show ?thesis by simp
  next
    case False
    have "k \<noteq> fst item" if "find P (map fst items) = Some k" for k
      using that False by (auto simp: find_Some_iff)
    with False Cons show ?thesis
      by (auto split: option.splits)
  qed
qed

lemma gpu_index_hit:
  assumes "find (\<lambda>m. py_in (upper m) (upper n)) gpu_models = Some k"
    and "map_of GPU_PERFORMANCE_INDEX k = Some v"
  shows "get_gpu_performance_index n = v"
  using assms
  by (simp add: get_gpu_performance_index_def gpu_index_loop_find gpu_models_keys
        find_fst_keys [where P = "\<lambda>m. py_in (upper m) (upper n)"])

lemma gpu_index_miss:
  assumes "find (\<lambda>m. py_in (upper m) (upper n)) gpu_models = None"
  shows "get_gpu_performance_index n = fl (50 / 100)"
  using assms
  by (simp add: get_gpu_performance_index_def gpu_index_loop_find gpu_models_keys
        find_fst_keys [where P = "\<lambda>m. py_in (upper m) (upper n)"])

lemma predict_fps_average:
  "fps_average (predict g game res preset) = int_of_float (predicted_fps (name g) game res preset)"
  by (simp add: predict_def predicted_fps_def Let_def)

lemma predict_confidence:
  "confidence (predict g game res preset) =
     (let gpu_in_db = list_ex (\<lambda>model. py_in (upper model) (upper (name g))) gpu_models;
          game_in_db = (game \<in> set (map fst GAME_BASE_FPS) \<or>
             list_ex (\<lambda>n. py_in (lower game) (lower n)) (map fst GAME_BASE_FPS))
      in if gpu_in_db \<and> game_in_db then ''high''
         else if gpu_in_db \<or> game_in_db then ''medium'' else ''low'')"
  by (simp add: predict_def Let_def gpu_models_keys)

lemma resolution_multiplier_values:
  "get_resolution_multiplier ''3840x2160'' = fl (35 / 100)"
  "get_resolution_multiplier ''2560x1440'' = fl (65 / 100)"
  "get_resolution_multiplier ''1920x1080'' = fl (100 / 100)"
  "get_resolution_multiplier ''1280x720'' = fl (180 / 100)"
  by (simp_all add: get_resolution_multiplier_def RESOLUTION_MULTIPLIERS_def)

lemma lower_presets:
  "lower ''ultra'' = ''ultra''" "lower ''high'' = ''high''" "lower ''medium'' = ''medium''"
  "lower ''low'' = ''low''" "lower ''ULTRA'' = ''ultra''"
  by code_simp+

lemma quality_multiplier_values:
  "get_quality_multiplier ''ultra'' = fl (70 / 100)"
  "get_quality_multiplier ''high'' = fl (100 / 100)"
  "get_quality_multiplier ''medium'' = fl (140 / 100)"
  "get_quality_multiplier ''low'' = fl (200 / 100)"
  "get_quality_multiplier ''ULTRA'' = fl (70 / 100)"
  by (simp_all add: get_quality_multiplier_def QUALITY_MULTIPLIERS_def lower_presets)

lemma gtx_1060_model:
  "find (\<lambda>m. py_in (upper m) (upper ''NVIDIA GeForce GTX 1060'')) gpu_models = Some ''GTX 1060''"
  by code_simp

lemma gtx_1060_index: "get_gpu_performance_index ''NVIDIA GeForce GTX 1060'' = fl (42 / 100)"
  by (rule gpu_index_hit [OF gtx_1060_model]) (simp add: GPU_PERFORMANCE_INDEX_def)

lemma rtx_3070_model:
  "find (\<lambda>m. py_in (upper m) (upper ''NVIDIA GeForce RTX 3070'')) gpu_models = Some ''RTX 3070''"
  by code_simp

lemma rtx_3070_index: "get_gpu_performance_index ''NVIDIA GeForce RTX 3070'' = fl (120 / 100)"
  by (rule gpu_index_hit [OF rtx_3070_model]) (simp add: GPU_PERFORMANCE_INDEX_def)

lemma rtx_3060_model:
  "find (\<lambda>m. py_in (upper m) (upper ''NVIDIA GeForce RTX 3060'')) gpu_models = Some ''RTX 3060''"
  by code_simp

lemma rtx_3060_index: "get_gpu_performance_index ''NVIDIA GeForce RTX 3060'' = fl (100 / 100)"
  by (rule gpu_index_hit [OF rtx_3060_model]) (simp add: GPU_PERFORMANCE_INDEX_def)

lemma rtx_4090_model:
  "find (\<lambda>m. py_in (upper m) (upper ''RTX 4090'')) gpu_models = Some ''RTX 4090''"
  by code_simp

lemma rtx_4090_index: "get_gpu_performance_index ''RTX 4090'' = fl (280 / 100)"
  by (rule gpu_index_hit [OF rtx_4090_model]) (simp add: GPU_PERFORMANCE_INDEX_def)

lemma cyberpunk_base_fps: "get_game_base_fps ''Cyberpunk 2077'' = 55"
  by code_simp

lemma fortnite_chapter_base_fps: "get_game_base_fps ''Fortnite Chapter 5'' = 120"
  by code_simp

section \<open>Properties of the prediction\<close>

subsection \<open>Ranges of the resolved factors\<close>

lemma gpu_index_loop_cases:
  assumes "P (fl (50 / 100))" "\<forall>item \<in> set items. P (snd item)"
  shows "P (gpu_index_loop items s)"
  using assms by (induction items) auto

lemma gpu_index_cases:
  assumes "P (fl (50 / 100))" "\<forall>item \<in> set GPU_PERFORMANCE_INDEX. P (snd item)"
  shows "P (get_gpu_performance_index n)"
  unfolding get_gpu_performance_index_def Let_def
  by (rule gpu_index_loop_cases [OF assms])

lemma resolution_multiplier_cases:
  assumes "P (fl 1)" "\<forall>item \<in> set RESOLUTION_MULTIPLIERS. P (snd item)"
  shows "P (get_resolution_multiplier res)"
proof (cases "map_of RESOLUTION_MULTIPLIERS res")
  case None
  then show ?thesis using assms(1) by (simp add: get_resolution_multiplier_def)
next
  case (Some m)
  then have "(res, m) \<in> set RESOLUTION_MULTIPLIERS" by (rule map_of_SomeD)
  then show ?thesis using assms(2) Some by (force simp: get_resolution_multiplier_def)
qed

lemma quality_multiplier_cases:
  assumes "P (fl 1)" "\<forall>item \<in> set QUALITY_MULTIPLIERS. P (snd item)"
  shows "P (get_quality_multiplier preset)"
proof (cases "map_of QUALITY_MULTIPLIERS (lower preset)")
  case None
  then show ?thesis using assms(1) by (simp add: get_quality_multiplier_def)
next
  case (Some m)
  then have "(lower preset, m) \<in> set QUALITY_MULTIPLIERS" by (rule map_of_SomeD)
  then show ?thesis using assms(2) Some by (force simp: get_quality_multiplier_def)
qed

lemma game_base_fps_cases:
  assumes "P 60" "\<forall>item \<in> set GAME_BASE_FPS. P (snd item)"
  shows "P (get_game_base_fps game)"
proof (cases "map_of GAME_BASE_FPS game")
  case (Some fps)
  then have "(game, fps) \<in> set GAME_BASE_FPS" by (rule map_of_SomeD)
  then show ?thesis using assms(2) Some by (force simp: get_game_base_fps_def)
next
  case None
  show ?thesis
  proof (cases "find (\<lambda>item. py_in (lower game) (lower (fst item)) \<or>
                               py_in (lower (fst item)) (lower game)) GAME_BASE_FPS")
    case n: None
    then show ?thesis using assms(1) None by (simp add: get_game_base_fps_def)
  next
    case (Some item)
    then have "item \<in> set GAME_BASE_FPS"
      by (auto simp: find_Some_iff)
    then show ?thesis using assms(2) None Some by (simp add: get_game_base_fps_def)
  qed
qed

lemma gpu_index_nonneg: "0 \<le> get_gpu_performance_index n"
  by (rule gpu_index_cases) (simp_all add: GPU_PERFORMANCE_INDEX_def fl_nonneg)

lemma resolution_multiplier_nonneg: "0 \<le> get_resolution_multiplier res"
  by (rule resolution_multiplier_cases) (simp_all add: RESOLUTION_MULTIPLIERS_def fl_nonneg)

lemma quality_multiplier_nonneg: "0 \<le> get_quality_multiplier preset"
  by (rule quality_multiplier_cases) (simp_all add: QUALITY_MULTIPLIERS_def fl_nonneg)

lemma game_base_fps_nonneg: "0 \<le> get_game_base_fps game"
  by (rule game_base_fps_cases) (simp_all add: GAME_BASE_FPS_def)

lemma fmul_nonneg: "0 \<le> a \<Longrightarrow> 0 \<le> b \<Longrightarrow> 0 \<le> fmul a b"
  by (simp add: fmul_def fl_nonneg)

lemma fmul_idem: "0 \<le> a \<Longrightarrow> 0 \<le> b \<Longrightarrow> fl (fmul a b) = fmul a b"
  by (simp add: fmul_def fl_idem)

lemma fmul_mono: "0 \<le> a \<Longrightarrow> a \<le> a' \<Longrightarrow> 0 \<le> b \<Longrightarrow> b \<le> b' \<Longrightarrow> fmul a b \<le> fmul a' b'"
  unfolding fmul_def by (intro fl_mono mult_mono) simp_all

lemma float_of_int_nonneg: "0 \<le> n \<Longrightarrow> 0 \<le> float_of_int n"
  by (simp add: float_of_int_def fl_nonneg)

lemma base_index_nonneg:
  "0 \<le> fmul (fmul (float_of_int (get_game_base_fps game)) (get_gpu_performance_index gpu))
         (get_resolution_multiplier res)"
  by (intro fmul_nonneg float_of_int_nonneg game_base_fps_nonneg gpu_index_nonneg
        resolution_multiplier_nonneg)

lemma predicted_fps_nonneg: "0 \<le> predicted_fps gpu game res preset"
  unfolding predicted_fps_def
  by (intro fmul_nonneg base_index_nonneg quality_multiplier_nonneg)

lemma predicted_fps_representable: "fl (predicted_fps gpu game res preset) = predicted_fps gpu game res preset"
  unfolding predicted_fps_def
  by (intro fmul_idem base_index_nonneg quality_multiplier_nonneg)

lemma int_of_float_nonneg: "0 \<le> x \<Longrightarrow> int_of_float x = \<lfloor>x\<rfloor>"
  by (simp add: int_of_float_def)

lemma int_of_float_mono: "0 \<le> x \<Longrightarrow> x \<le> y \<Longrightarrow> int_of_float x \<le> int_of_float y"
  by (simp add: int_of_float_def floor_mono)

lemma band_constants:
  "0 \<le> fl (60 / 100)" "fl (60 / 100) \<le> fl (75 / 100)" "fl (75 / 100) \<le> 1" "1 \<le> fl (115 / 100)"
  by (simp_all add: fl_eval)

lemma predict_bands:
  "fps_min (predict g game res preset) =
     int_of_float (fmul (predicted_fps (name g) game res preset) (fl (75 / 100)))"
  "fps_max (predict g game res preset) =
     int_of_float (fmul (predicted_fps (name g) game res preset) (fl (115 / 100)))"
  "fps_1_percent_low (predict g game res preset) =
     int_of_float (fmul (predicted_fps (name g) game res preset) (fl (60 / 100)))"
  by (simp_all add: predict_def predicted_fps_def Let_def)

text \<open>
  Claim C2. Every prediction satisfies
  \<open>fps_1_percent_low \<le> fps_min \<le> fps_average \<le> fps_max\<close>: the raw value is a non-negative
  float, the band factors satisfy \<open>0.60 \<le> 0.75 \<le> 1 \<le> 1.15\<close> as floats, and both the rounded
  multiplication and the truncation are monotone.
\<close>

theorem fps_range_invariant:
  "fps_1_percent_low (predict g game res preset) \<le> fps_min (predict g game res preset) \<and>
   fps_min (predict g game res preset) \<le> fps_average (predict g game res preset) \<and>
   fps_average (predict g game res preset) \<le> fps_max (predict g game res preset)"
proof -
  let ?x = "predicted_fps (name g) game res preset"
  have x: "0 \<le> ?x" by (rule predicted_fps_nonneg)
  have r: "fl ?x = ?x" by (rule predicted_fps_representable)
  have a: "fmul ?x (fl (60 / 100)) \<le> fmul ?x (fl (75 / 100))"
    using x band_constants by (intro fmul_mono) simp_all
  have "fmul ?x (fl (75 / 100)) \<le> fl (?x * 1)"
    unfolding fmul_def using x band_constants by (intro fl_mono mult_mono mult_nonneg_nonneg) simp_all
  then have b: "fmul ?x (fl (75 / 100)) \<le> ?x" using r by simp
  have "fl (?x * 1) \<le> fmul ?x (fl (115 / 100))"
    unfolding fmul_def using x band_constants by (intro fl_mono mult_mono) simp_all
  then have c: "?x \<le> fmul ?x (fl (115 / 100))" using r by simp
  have n: "0 \<le> fmul ?x (fl (60 / 100))" "0 \<le> fmul ?x (fl (75 / 100))"
    using x band_constants by (auto intro!: fmul_nonneg)
  show ?thesis
    unfolding predict_fps_average predict_bands
    using a b c n x by (intro conjI int_of_float_mono) simp_all
qed

subsection \<open>Order of the quality presets\<close>

lemma fl_upper: "0 < x \<Longrightarrow> fl x \<le> x + x / 2 ^ 53"
  using fl_error [of x] unfolding abs_le_iff by linarith

lemma fl_lower: "0 < x \<Longrightarrow> x - x / 2 ^ 53 \<le> fl x"
  using fl_error [of x] unfolding abs_le_iff by linarith

lemma floor_strict: "a + 1 \<le> b \<Longrightarrow> \<lfloor>a\<rfloor> < \<lfloor>b::rat\<rfloor>"
  using floor_mono [of "a + 1" b] by simp

lemma fl_one_two: "fl 1 = 1" "fl 2 = 2"
  by (simp_all add: fl_eval)

lemma quality_constants:
  "fl (100 / 100) = 1" "fl (200 / 100) = 2"
  "0 < fl (70 / 100)" "fl (70 / 100) \<le> 7001 / 10000"
  "1399 / 1000 \<le> fl (140 / 100)" "fl (140 / 100) \<le> 1401 / 1000"
  by (simp_all add: fl_eval)

lemma quality_order_large:
  assumes r: "fl y = y" and y: "67 / 20 \<le> y"
  shows "quality_ordered y"
proof -
  have y0: "0 < y" using y by simp
  let ?u = "y * fl (70 / 100)"
  let ?m = "y * fl (140 / 100)"
  have u0: "0 < ?u" using y0 quality_constants(3) by simp
  have m0: "0 < ?m" using y0 quality_constants(5) by simp
  have u1: "?u \<le> y * (7001 / 10000)"
    using y0 quality_constants(4) by (intro mult_left_mono) simp_all
  have m1: "y * (1399 / 1000) \<le> ?m" "?m \<le> y * (1401 / 1000)"
    using y0 quality_constants(5,6) by (intro mult_left_mono; simp)+
  have ue: "fl ?u \<le> ?u + ?u / 2 ^ 53" by (rule fl_upper [OF u0])
  have me: "?m - ?m / 2 ^ 53 \<le> fl ?m" "fl ?m \<le> ?m + ?m / 2 ^ 53"
    by (rule fl_lower [OF m0], rule fl_upper [OF m0])
  have p: "(2::rat) ^ 53 = 9007199254740992" by simp
  have high: "fmul y (fl (100 / 100)) = y"
    by (simp add: fmul_def fl_one_two r)
  have low: "fmul y (fl (200 / 100)) = 2 * y"
    using fl_double [OF y0] by (simp add: fmul_def fl_one_two r mult.commute)
  have a: "fl ?u + 1 \<le> y" using ue u1 y unfolding p by linarith
  have b: "y + 1 \<le> fl ?m" using me m1 y unfolding p by linarith
  have c: "fl ?m + 1 \<le> 2 * y" using me m1 y unfolding p by linarith
  have n: "0 \<le> fl ?u" "0 \<le> fl ?m" using u0 m0 by (simp_all add: fl_nonneg)
  show ?thesis
    unfolding quality_ordered_def high low
    using a b c n y0
    by (simp add: fmul_def int_of_float_def floor_strict)
qed


lemma float_of_int_mono: "0 \<le> a \<Longrightarrow> a \<le> b \<Longrightarrow> float_of_int a \<le> float_of_int b"
  by (simp add: float_of_int_def fl_mono)

lemma raw_mono:
  assumes "0 \<le> a" "a \<le> a'" "0 \<le> i" "i \<le> i'" "0 \<le> r" "r \<le> r'"
  shows "fmul (fmul (float_of_int a) i) r \<le> fmul (fmul (float_of_int a') i') r'"
  using assms
  by (intro fmul_mono fmul_nonneg float_of_int_nonneg float_of_int_mono) simp_all

lemma large_raw_values:
  "67 / 20 \<le> fmul (fmul (float_of_int 40) (fl (35 / 100))) (fl (28 / 100))"
  "67 / 20 \<le> fmul (fmul (float_of_int 40) (fl (28 / 100))) (fl (35 / 100))"
  "67 / 20 \<le> fmul (fmul (float_of_int 45) (fl (28 / 100))) (fl (28 / 100))"
  "67 / 20 \<le> fmul (fmul (float_of_int 40) (fl (22 / 100))) (fl (55 / 100))"
  "67 / 20 \<le> fmul (fmul (float_of_int 45) (fl (22 / 100))) (fl (35 / 100))"
  "67 / 20 \<le> fmul (fmul (float_of_int 55) (fl (22 / 100))) (fl (28 / 100))"
  by (simp_all add: fl_eval)

lemma small_raw_values:
  "quality_ordered (fmul (fmul (float_of_int 40) (fl (28 / 100))) (fl (28 / 100)))"
  "quality_ordered (fmul (fmul (float_of_int 40) (fl (22 / 100))) (fl (35 / 100)))"
  "quality_ordered (fmul (fmul (float_of_int 40) (fl (22 / 100))) (fl (28 / 100)))"
  "quality_ordered (fmul (fmul (float_of_int 45) (fl (22 / 100))) (fl (28 / 100)))"
  "quality_ordered (fmul (fmul (float_of_int 50) (fl (22 / 100))) (fl (28 / 100)))"
  "quality_ordered (fmul (fmul (float_of_int 52) (fl (22 / 100))) (fl (28 / 100)))"
  by (simp_all add: quality_ordered_def fl_eval)

lemma gpu_index_range:
  "get_gpu_performance_index n = fl (22 / 100) \<or> get_gpu_performance_index n = fl (28 / 100) \<or>
   fl (35 / 100) \<le> get_gpu_performance_index n"
  by (rule gpu_index_cases) (simp_all add: GPU_PERFORMANCE_INDEX_def fl_mono)

lemma resolution_multiplier_range:
  "get_resolution_multiplier res = fl (28 / 100) \<or> get_resolution_multiplier res = fl (35 / 100) \<or>
   fl (55 / 100) \<le> get_resolution_multiplier res"
  by (rule resolution_multiplier_cases) (simp_all add: RESOLUTION_MULTIPLIERS_def fl_mono)

lemma game_base_fps_range:
  "get_game_base_fps game \<in> {40, 45, 50, 52} \<or> 55 \<le> get_game_base_fps game"
  by (rule game_base_fps_cases) (simp_all add: GAME_BASE_FPS_def)


lemma raw_large:
  assumes "67 / 20 \<le> fmul (fmul (float_of_int a) i0) r0"
    and "0 \<le> a" "a \<le> b" "0 \<le> i0" "i0 \<le> i" "0 \<le> r0" "r0 \<le> r"
  shows "quality_ordered (fmul (fmul (float_of_int b) i) r)"
proof (rule quality_order_large)
  have "fmul (fmul (float_of_int a) i0) r0 \<le> fmul (fmul (float_of_int b) i) r"
    using assms(2-) by (rule raw_mono)
  then show "67 / 20 \<le> fmul (fmul (float_of_int b) i) r"
    using assms(1) by linarith
  have "0 \<le> fmul (float_of_int b) i"
    using assms(2-) by (intro fmul_nonneg float_of_int_nonneg) simp_all
  then show "fl (fmul (fmul (float_of_int b) i) r) = fmul (fmul (float_of_int b) i) r"
    using assms(2-) by (intro fmul_idem) simp_all
qed

lemma factor_constants:
  "0 \<le> fl (22 / 100)" "0 \<le> fl (28 / 100)" "0 \<le> fl (35 / 100)" "0 \<le> fl (55 / 100)"
  "fl (22 / 100) \<le> fl (28 / 100)" "fl (28 / 100) \<le> fl (35 / 100)" "fl (35 / 100) \<le> fl (55 / 100)"
  by (simp_all add: fl_nonneg fl_mono)

lemma quality_ordered_raw:
  fixes b :: int
  assumes b: "b \<in> {40, 45, 50, 52} \<or> 55 \<le> b"
    and i: "i = fl (22 / 100) \<or> i = fl (28 / 100) \<or> fl (35 / 100) \<le> i"
    and r: "r = fl (28 / 100) \<or> r = fl (35 / 100) \<or> fl (55 / 100) \<le> r"
  shows "quality_ordered (fmul (fmul (float_of_int b) i) r)"
proof -
  note c = factor_constants
  have b40: "40 \<le> b" using b by auto
  have r28: "fl (28 / 100) \<le> r" using r c by auto
  consider (A) "fl (35 / 100) \<le> i" | (B) "i = fl (28 / 100)" | (C) "i = fl (22 / 100)"
    using i by blast
  then show ?thesis
  proof cases
    case A
    show ?thesis
      by (rule raw_large [OF large_raw_values(1)]) (use A b40 r28 c in simp_all)
  next
    case B
    consider (B1) "fl (35 / 100) \<le> r" | (B2) "r = fl (28 / 100)" "45 \<le> b"
      | (B3) "r = fl (28 / 100)" "b = 40"
      using r b c by auto
    then show ?thesis
    proof cases
      case B1
      show ?thesis
        by (rule raw_large [OF large_raw_values(2)]) (use B B1 b40 c in simp_all)
    next
      case B2
      show ?thesis
        by (rule raw_large [OF large_raw_values(3)]) (use B B2 c in simp_all)
    next
      case B3
      show ?thesis
        unfolding B B3 by (rule small_raw_values(1))
    qed
  next
    case C
    consider (C1) "fl (55 / 100) \<le> r"
      | (C2) "r = fl (35 / 100)" "45 \<le> b" | (C3) "r = fl (35 / 100)" "b = 40"
      | (C4) "r = fl (28 / 100)" "55 \<le> b" | (C5) "r = fl (28 / 100)" "b \<in> {40, 45, 50, 52}"
      using r b by auto
    then show ?thesis
    proof cases
      case C1
      show ?thesis
        by (rule raw_large [OF large_raw_values(4)]) (use C C1 b40 c in simp_all)
    next
      case C2
      show ?thesis
        by (rule raw_large [OF large_raw_values(5)]) (use C C2 c in simp_all)
    next
      case C3
      show ?thesis
        unfolding C C3 by (rule small_raw_values(2))
    next
      case C4
      show ?thesis
        by (rule raw_large [OF large_raw_values(6)]) (use C C4 c in simp_all)
    next
      case C5
      then show ?thesis
        unfolding C using small_raw_values(3-6) by auto
    qed
  qed
qed

text \<open>
  Claim C9. For every GPU descriptor, game and resolution, the average of the prediction is
  strictly ordered over the presets: low above medium above high above ultra. The value
  before the preset factor is at least 3.35, where rounding cannot close the gaps, except
  for six combinations of the smallest table entries, which are evaluated one by one.
\<close>

theorem quality_strictly_monotone:
  "fps_average (predict g game res ''ultra'') < fps_average (predict g game res ''high'') \<and>
   fps_average (predict g game res ''high'') < fps_average (predict g game res ''medium'') \<and>
   fps_average (predict g game res ''medium'') < fps_average (predict g game res ''low'')"
  using quality_ordered_raw [OF game_base_fps_range gpu_index_range resolution_multiplier_range,
    of game "name g" res]
  by (simp add: quality_ordered_def predict_fps_average predicted_fps_def quality_multiplier_values)

subsection \<open>Range of the raw frame rate\<close>

lemma gpu_index_upper: "get_gpu_performance_index n \<le> fl (280 / 100)"
  by (rule gpu_index_cases) (simp_all add: GPU_PERFORMANCE_INDEX_def fl_mono)

lemma gpu_index_lower: "fl (22 / 100) \<le> get_gpu_performance_index n"
  by (rule gpu_index_cases) (simp_all add: GPU_PERFORMANCE_INDEX_def fl_mono)

lemma resolution_multiplier_upper: "get_resolution_multiplier res \<le> fl (180 / 100)"
  by (rule resolution_multiplier_cases) (simp_all add: RESOLUTION_MULTIPLIERS_def fl_mono)

lemma resolution_multiplier_lower: "fl (28 / 100) \<le> get_resolution_multiplier res"
  by (rule resolution_multiplier_cases) (simp_all add: RESOLUTION_MULTIPLIERS_def fl_mono)

lemma quality_multiplier_upper: "get_quality_multiplier preset \<le> fl (200 / 100)"
  by (rule quality_multiplier_cases) (simp_all add: QUALITY_MULTIPLIERS_def fl_mono)

lemma quality_multiplier_lower: "fl (50 / 100) \<le> get_quality_multiplier preset"
  by (rule quality_multiplier_cases) (simp_all add: QUALITY_MULTIPLIERS_def fl_mono)

lemma game_base_fps_bounds: "40 \<le> get_game_base_fps game \<and> get_game_base_fps game \<le> 250"
  by (rule game_base_fps_cases) (simp_all add: GAME_BASE_FPS_def)

lemma extreme_raw_values:
  "fmul (fmul (fmul (float_of_int 40) (fl (22 / 100))) (fl (28 / 100))) (fl (50 / 100)) = 1387108685230113 / 1125899906842624"
  "fmul (fmul (fmul (float_of_int 250) (fl (280 / 100))) (fl (180 / 100))) (fl (200 / 100)) = 2520"
  by (simp_all add: fl_eval)

text \<open>
  For every input the raw frame rate lies between 1.232 (40 x 0.22 x 0.28 x 0.50) and
  2520 (250 x 2.80 x 1.80 x 2.00): the computation stays in the normal range of binary64.
\<close>

lemma predicted_fps_range:
  "1387108685230113 / 1125899906842624 \<le> predicted_fps gpu game res preset \<and>
   predicted_fps gpu game res preset \<le> 2520"
proof -
  have c: "0 \<le> fl (22 / 100)" "0 \<le> fl (28 / 100)" "0 \<le> fl (50 / 100)"
    by (simp_all add: fl_nonneg)
  have "fmul (fmul (fmul (float_of_int 40) (fl (22 / 100))) (fl (28 / 100))) (fl (50 / 100))
      \<le> predicted_fps gpu game res preset"
    unfolding predicted_fps_def
    using game_base_fps_bounds [of game] c
    by (intro fmul_mono raw_mono fmul_nonneg float_of_int_nonneg gpu_index_lower
          resolution_multiplier_lower quality_multiplier_lower) simp_all
  moreover have "predicted_fps gpu game res preset
      \<le> fmul (fmul (fmul (float_of_int 250) (fl (280 / 100))) (fl (180 / 100))) (fl (200 / 100))"
    unfolding predicted_fps_def
    using game_base_fps_bounds [of game]
    by (intro fmul_mono raw_mono fmul_nonneg float_of_int_nonneg gpu_index_upper
          resolution_multiplier_upper quality_multiplier_upper game_base_fps_nonneg
          gpu_index_nonneg resolution_multiplier_nonneg quality_multiplier_nonneg) simp_all
  ultimately show ?thesis
    unfolding extreme_raw_values by simp
qed

subsection \<open>The formula of the prediction\<close>

lemma rtx_3070_name [simp]: "name rtx_3070 = ''NVIDIA GeForce RTX 3070''"
  by (simp add: rtx_3070_def)

lemma fps_average_nonneg: "0 \<le> fps_average (predict g game res preset)"
  using predicted_fps_nonneg [of "name g" game res preset]
  by (simp add: predict_fps_average int_of_float_def)

text \<open>
  Claim C1, as amended. The raw frame rate is the float product of the game baseline, the
  processor index, the resolution factor and the quality factor, multiplied from left to
  right; the resolution factor is 1.0 when the resolution string is not a key of its
  table, and the quality factor is looked up under the lower-case form of the quality
  string and is 1.0 when that form is not a key of its table. The four statistics are the
  floors of the raw value and of its float products with 0.75, 1.15 and 0.60.
\<close>

theorem predict_formula:
  "(let raw =
      fmul (fmul (fmul (float_of_int (get_game_base_fps game))
                       (get_gpu_performance_index (name g)))
                 (case map_of RESOLUTION_MULTIPLIERS res of Some m \<Rightarrow> m | None \<Rightarrow> 1))
           (case map_of QUALITY_MULTIPLIERS (lower preset) of Some m \<Rightarrow> m | None \<Rightarrow> 1)
    in fps_average (predict g game res preset) = \<lfloor>raw\<rfloor> \<and>
       fps_min (predict g game res preset) = \<lfloor>fmul raw (fl (75 / 100))\<rfloor> \<and>
       fps_max (predict g game res preset) = \<lfloor>fmul raw (fl (115 / 100))\<rfloor> \<and>
       fps_1_percent_low (predict g game res preset) = \<lfloor>fmul raw (fl (60 / 100))\<rfloor>)"
proof -
  let ?x = "predicted_fps (name g) game res preset"
  have x: "0 \<le> ?x" by (rule predicted_fps_nonneg)
  have c: "0 \<le> fl (75 / 100)" "0 \<le> fl (115 / 100)" "0 \<le> fl (60 / 100)"
    by (simp_all add: fl_nonneg)
  have e: "?x =
      fmul (fmul (fmul (float_of_int (get_game_base_fps game))
                       (get_gpu_performance_index (name g)))
                 (case map_of RESOLUTION_MULTIPLIERS res of Some m \<Rightarrow> m | None \<Rightarrow> 1))
           (case map_of QUALITY_MULTIPLIERS (lower preset) of Some m \<Rightarrow> m | None \<Rightarrow> 1)"
    by (simp add: predicted_fps_def get_resolution_multiplier_def get_quality_multiplier_def
          fl_one_two split: option.splits)
  have "fps_average (predict g game res preset) = \<lfloor>?x\<rfloor> \<and>
       fps_min (predict g game res preset) = \<lfloor>fmul ?x (fl (75 / 100))\<rfloor> \<and>
       fps_max (predict g game res preset) = \<lfloor>fmul ?x (fl (115 / 100))\<rfloor> \<and>
       fps_1_percent_low (predict g game res preset) = \<lfloor>fmul ?x (fl (60 / 100))\<rfloor>"
    unfolding predict_fps_average predict_bands
    using x c by (intro conjI int_of_float_nonneg fmul_nonneg)
  then show ?thesis
    unfolding e Let_def .
qed

lemma ultra_upper_case:
  "map_of QUALITY_MULTIPLIERS ''ULTRA'' = None"
  by (simp add: QUALITY_MULTIPLIERS_def)

lemma ultra_upper_case_values:
  "int_of_float (predicted_fps ''NVIDIA GeForce RTX 3070'' ''Cyberpunk 2077'' ''1920x1080'' ''ULTRA'') = 46"
  "\<lfloor>claimed_raw_fps rtx_3070 ''Cyberpunk 2077'' ''1920x1080'' ''ULTRA''\<rfloor> = 66"
  by (simp_all add: predicted_fps_def claimed_raw_fps_def claimed_quality_factor_def
        ultra_upper_case rtx_3070_index cyberpunk_base_fps
        resolution_multiplier_values quality_multiplier_values fl_eval)

text \<open>
  Claim C1 as stated fails for the quality string \<^verbatim>\<open>ULTRA\<close>: it is not a key of the quality
  table, so the stated formula uses the factor 1.0 and gives the average 66 for an RTX 3070
  in Cyberpunk 2077 at 1920x1080, while \<^verbatim>\<open>predict\<close> lower-cases the string, uses the factor
  0.70 and returns 46.
\<close>

theorem predict_formula_counterexample:
  "map_of QUALITY_MULTIPLIERS ''ULTRA'' = None \<and>
   fps_average (predict rtx_3070 ''Cyberpunk 2077'' ''1920x1080'' ''ULTRA'') = 46 \<and>
   \<lfloor>claimed_raw_fps rtx_3070 ''Cyberpunk 2077'' ''1920x1080'' ''ULTRA''\<rfloor> = 66 \<and>
   fps_average (predict rtx_3070 ''Cyberpunk 2077'' ''1920x1080'' ''ULTRA'') \<noteq>
     \<lfloor>claimed_raw_fps rtx_3070 ''Cyberpunk 2077'' ''1920x1080'' ''ULTRA''\<rfloor>"
  by (simp add: ultra_upper_case predict_fps_average ultra_upper_case_values)

subsection \<open>The confidence label\<close>

lemma rtx_3070_in_db:
  "list_ex (\<lambda>model. py_in (upper model) (upper ''NVIDIA GeForce RTX 3070'')) gpu_models"
  by code_simp

lemma fortnite_chapter_not_in_db:
  "\<not> (''Fortnite Chapter 5'' \<in> set (map fst GAME_BASE_FPS) \<or>
      list_ex (\<lambda>n. py_in (lower ''Fortnite Chapter 5'') (lower n)) (map fst GAME_BASE_FPS))"
  by code_simp

lemma fortnite_contained: "py_in (lower ''Fortnite'') (lower ''Fortnite Chapter 5'')"
  by code_simp

text \<open>
  Claim C3 at the input \<^verbatim>\<open>Fortnite Chapter 5\<close> on an RTX 3070: the table name \<^verbatim>\<open>Fortnite\<close>
  occurs in the input, so \<^verbatim>\<open>_get_game_base_fps\<close> resolves the game to 120 (not the default
  60), and the processor is resolved to 1.20; still the confidence is \<^verbatim>\<open>medium\<close>, because
  the confidence test looks only for the input inside a table name.
\<close>

theorem confidence_ignores_contained_name:
  "py_in (lower ''Fortnite'') (lower ''Fortnite Chapter 5'') \<and>
   get_game_base_fps ''Fortnite Chapter 5'' = 120 \<and>
   get_gpu_performance_index (name rtx_3070) = fl (120 / 100) \<and>
   confidence (predict rtx_3070 ''Fortnite Chapter 5'' ''1920x1080'' ''high'') = ''medium''"
  using fortnite_contained fortnite_chapter_not_in_db rtx_3070_in_db
  by (simp add: fortnite_chapter_base_fps rtx_3070_index predict_confidence)

section \<open>Properties of the settings search\<close>

lemma find_append_case:
  "find P (xs @ ys) = (case find P xs of None \<Rightarrow> find P ys | Some x \<Rightarrow> Some x)"
  by (induction xs) auto

lemma quality_presets_loop_None:
  "quality_presets_loop g game t res ps (None, calls) =
     (case find (reaches g game t) (map (Pair res) ps) of
        Some c \<Rightarrow> (Some (config_of g game c),
                   calls @ takeWhile (\<lambda>c. \<not> reaches g game t c) (map (Pair res) ps) @ [c])
      | None \<Rightarrow> (None, calls @ map (Pair res) ps))"
  by (induction ps arbitrary: calls)
     (auto simp: reaches_def config_of_def Let_def split: option.splits)

lemma find_None_takeWhile: "find P xs = None \<Longrightarrow> takeWhile (\<lambda>x. \<not> P x) xs = xs"
  by (induction xs) (auto split: if_splits)

lemma find_Some_takeWhile:
  "find P xs = Some x \<Longrightarrow> takeWhile (\<lambda>x. \<not> P x) (xs @ ys) = takeWhile (\<lambda>x. \<not> P x) xs"
  by (induction xs) (auto split: if_splits)

lemma find_None_takeWhile_append:
  "find P xs = None \<Longrightarrow> takeWhile (\<lambda>x. \<not> P x) (xs @ ys) = xs @ takeWhile (\<lambda>x. \<not> P x) ys"
  by (induction xs) (auto split: if_splits)

lemma quality_resolutions_loop_None:
  "quality_resolutions_loop g game t rs ps (None, calls) =
     (case find (reaches g game t) (List.product rs ps) of
        Some c \<Rightarrow> (Some (config_of g game c),
                   calls @ takeWhile (\<lambda>c. \<not> reaches g game t c) (List.product rs ps) @ [c])
      | None \<Rightarrow> (None, calls @ List.product rs ps))"
proof (induction rs arbitrary: calls)
  case Nil
  show ?case by simp
next
  case (Cons r rs)
  show ?case
  proof (cases "find (reaches g game t) (map (Pair r) ps)")
    case None
    then show ?thesis
      by (simp add: quality_presets_loop_None Cons.IH find_append_case
            find_None_takeWhile_append split: option.splits)
  next
    case (Some c)
    then show ?thesis
      by (simp add: quality_presets_loop_None find_append_case find_Some_takeWhile)
  qed
qed

lemma performance_presets_loop_eq:
  "performance_presets_loop g game t res ps (best, calls) =
     ((case rev (filter (reaches g game t) (map (Pair res) ps)) of
         [] \<Rightarrow> best | c # _ \<Rightarrow> Some (config_of g game c)),
      calls @ map (Pair res) ps)"
  by (induction ps arbitrary: best calls)
     (auto simp: reaches_def config_of_def Let_def split: list.splits)

lemma performance_resolutions_loop_eq:
  "performance_resolutions_loop g game t rs ps (best, calls) =
     ((case rev (filter (reaches g game t) (List.product rs ps)) of
         [] \<Rightarrow> best | c # _ \<Rightarrow> Some (config_of g game c)),
      calls @ List.product rs ps)"
  by (induction rs arbitrary: best calls)
     (auto simp: performance_presets_loop_eq split: list.splits)


text \<open>
  Claim C4. With quality priority the search returns the first combination, in the order
  4K, 1440p, 1080p, 720p and within each resolution ultra, high, medium, low, whose
  prediction reaches the target, and \<^verbatim>\<open>predict\<close> is called exactly for the combinations up
  to and including that one. (When no combination reaches the target, the whole grid is
  evaluated and the fall-back is returned.)
\<close>

theorem quality_priority_first_hit:
  "find_optimal_settings_calls g game t True =
     (case find (reaches g game t) quality_scan of
        Some c \<Rightarrow>
          (config_of g game c, takeWhile (\<lambda>c. \<not> reaches g game t c) quality_scan @ [c])
      | None \<Rightarrow> (fallback_config g game t, quality_scan @ [(''1280x720'', ''low'')]))"
  by (simp add: find_optimal_settings_calls_def quality_resolutions_loop_None quality_scan_def
        fallback_config_def split: option.splits)

text \<open>
  Claim C5. With performance priority the search calls \<^verbatim>\<open>predict\<close> for every combination,
  resolutions 720p, 1080p, 1440p, 4K and within each resolution low, medium, high, ultra,
  and returns the last combination in that order whose prediction reaches the target, when
  there is one.
\<close>

theorem performance_priority_last_hit:
  "find_optimal_settings_calls g game t False =
     (if filter (reaches g game t) performance_scan = []
      then (fallback_config g game t, performance_scan @ [(''1280x720'', ''low'')])
      else (config_of g game (last (filter (reaches g game t) performance_scan)),
            performance_scan))"
proof (cases "filter (reaches g game t) performance_scan = []")
  case True
  then show ?thesis
    by (simp add: find_optimal_settings_calls_def performance_resolutions_loop_eq
          performance_scan_def fallback_config_def)
next
  case False
  then obtain c cs where r: "rev (filter (reaches g game t) performance_scan) = c # cs"
    by (cases "rev (filter (reaches g game t) performance_scan)") auto
  then have "last (filter (reaches g game t) performance_scan) = c"
    by (metis False hd_rev list.sel(1))
  with False r show ?thesis
    by (simp add: find_optimal_settings_calls_def performance_resolutions_loop_eq
          performance_scan_def)
qed

lemma scan_sets: "set performance_scan = set quality_scan"
  by (simp add: performance_scan_def quality_scan_def)

text \<open>
  Claim C6. In either mode, when no combination of the grid reaches the target, the
  search returns resolution \<^verbatim>\<open>1280x720\<close> and preset \<^verbatim>\<open>low\<close> with their prediction and a
  non-empty warning. The search is a total function: there is no error result.
\<close>

theorem unattainable_target:
  assumes "\<forall>c \<in> set quality_scan. \<not> reaches g game t c"
  shows "config_resolution (find_optimal_settings g game t pq) = ''1280x720'' \<and>
         config_quality_preset (find_optimal_settings g game t pq) = ''low'' \<and>
         config_prediction (find_optimal_settings g game t pq) =
           predict g game ''1280x720'' ''low'' \<and>
         (\<exists>w. config_warning (find_optimal_settings g game t pq) = Some w \<and> w \<noteq> [])"
proof -
  have q: "find (reaches g game t) quality_scan = None"
    using assms by (simp add: find_None_iff)
  have p: "filter (reaches g game t) performance_scan = []"
    using assms by (simp add: filter_empty_conv scan_sets)
  have "find_optimal_settings g game t pq = fallback_config g game t"
  proof (cases pq)
    case True
    then show ?thesis
      by (simp add: find_optimal_settings_def find_optimal_settings_calls_def
          quality_resolutions_loop_None q [unfolded quality_scan_def] fallback_config_def)
  next
    case False
    then show ?thesis
      by (simp add: find_optimal_settings_def find_optimal_settings_calls_def
          performance_resolutions_loop_eq p [unfolded performance_scan_def] fallback_config_def)
  qed
  then show ?thesis
    by (simp add: fallback_config_def)
qed

lemma quality_scan_list:
  "quality_scan =
     [(''3840x2160'', ''ultra''),
      (''3840x2160'', ''high''),
      (''3840x2160'', ''medium''),
      (''3840x2160'', ''low''),
      (''2560x1440'', ''ultra''),
      (''2560x1440'', ''high''),
      (''2560x1440'', ''medium''),
      (''2560x1440'', ''low''),
      (''1920x1080'', ''ultra''),
      (''1920x1080'', ''high''),
      (''1920x1080'', ''medium''),
      (''1920x1080'', ''low''),
      (''1280x720'', ''ultra''),
      (''1280x720'', ''high''),
      (''1280x720'', ''medium''),
      (''1280x720'', ''low'')]"
  by (simp add: quality_scan_def resolutions_def presets_list_def)



lemma performance_scan_list:
  "performance_scan =
     [(''1280x720'', ''low''),
      (''1280x720'', ''medium''),
      (''1280x720'', ''high''),
      (''1280x720'', ''ultra''),
      (''1920x1080'', ''low''),
      (''1920x1080'', ''medium''),
      (''1920x1080'', ''high''),
      (''1920x1080'', ''ultra''),
      (''2560x1440'', ''low''),
      (''2560x1440'', ''medium''),
      (''2560x1440'', ''high''),
      (''2560x1440'', ''ultra''),
      (''3840x2160'', ''low''),
      (''3840x2160'', ''medium''),
      (''3840x2160'', ''high''),
      (''3840x2160'', ''ultra'')]"
  by (simp add: performance_scan_def resolutions_def presets_list_def)

lemma gtx_1060_cyberpunk_below_240:
  "int_of_float (predicted_fps ''NVIDIA GeForce GTX 1060'' ''Cyberpunk 2077'' ''3840x2160'' ''ultra'') < 240"
  "int_of_float (predicted_fps ''NVIDIA GeForce GTX 1060'' ''Cyberpunk 2077'' ''3840x2160'' ''high'') < 240"
  "int_of_float (predicted_fps ''NVIDIA GeForce GTX 1060'' ''Cyberpunk 2077'' ''3840x2160'' ''medium'') < 240"
  "int_of_float (predicted_fps ''NVIDIA GeForce GTX 1060'' ''Cyberpunk 2077'' ''3840x2160'' ''low'') < 240"
  "int_of_float (predicted_fps ''NVIDIA GeForce GTX 1060'' ''Cyberpunk 2077'' ''2560x1440'' ''ultra'') < 240"
  "int_of_float (predicted_fps ''NVIDIA GeForce GTX 1060'' ''Cyberpunk 2077'' ''2560x1440'' ''high'') < 240"
  "int_of_float (predicted_fps ''NVIDIA GeForce GTX 1060'' ''Cyberpunk 2077'' ''2560x1440'' ''medium'') < 240"
  "int_of_float (predicted_fps ''NVIDIA GeForce GTX 1060'' ''Cyberpunk 2077'' ''2560x1440'' ''low'') < 240"
  "int_of_float (predicted_fps ''NVIDIA GeForce GTX 1060'' ''Cyberpunk 2077'' ''1920x1080'' ''ultra'') < 240"
  "int_of_float (predicted_fps ''NVIDIA GeForce GTX 1060'' ''Cyberpunk 2077'' ''1920x1080'' ''high'') < 240"
  "int_of_float (predicted_fps ''NVIDIA GeForce GTX 1060'' ''Cyberpunk 2077'' ''1920x1080'' ''medium'') < 240"
  "int_of_float (predicted_fps ''NVIDIA GeForce GTX 1060'' ''Cyberpunk 2077'' ''1920x1080'' ''low'') < 240"
  "int_of_float (predicted_fps ''NVIDIA GeForce GTX 1060'' ''Cyberpunk 2077'' ''1280x720'' ''ultra'') < 240"
  "int_of_float (predicted_fps ''NVIDIA GeForce GTX 1060'' ''Cyberpunk 2077'' ''1280x720'' ''high'') < 240"
  "int_of_float (predicted_fps ''NVIDIA GeForce GTX 1060'' ''Cyberpunk 2077'' ''1280x720'' ''medium'') < 240"
  "int_of_float (predicted_fps ''NVIDIA GeForce GTX 1060'' ''Cyberpunk 2077'' ''1280x720'' ''low'') < 240"
  by (simp_all add: predicted_fps_def gtx_1060_index cyberpunk_base_fps
          resolution_multiplier_values quality_multiplier_values fl_eval)

theorem unattainable_target_witness:
  "config_resolution (find_optimal_settings
      \<lparr>name = ''NVIDIA GeForce GTX 1060'', vram_total = 6144, architecture = ''Pascal''\<rparr>
      ''Cyberpunk 2077'' 240 True) = ''1280x720'' \<and>
   config_quality_preset (find_optimal_settings
      \<lparr>name = ''NVIDIA GeForce GTX 1060'', vram_total = 6144, architecture = ''Pascal''\<rparr>
      ''Cyberpunk 2077'' 240 True) = ''low'' \<and>
   config_prediction (find_optimal_settings
      \<lparr>name = ''NVIDIA GeForce GTX 1060'', vram_total = 6144, architecture = ''Pascal''\<rparr>
      ''Cyberpunk 2077'' 240 True) =
     predict \<lparr>name = ''NVIDIA GeForce GTX 1060'', vram_total = 6144, architecture = ''Pascal''\<rparr>
       ''Cyberpunk 2077'' ''1280x720'' ''low'' \<and>
   (\<exists>w. config_warning (find_optimal_settings
      \<lparr>name = ''NVIDIA GeForce GTX 1060'', vram_total = 6144, architecture = ''Pascal''\<rparr>
      ''Cyberpunk 2077'' 240 True) = Some w \<and> w \<noteq> [])"
proof -
  let ?g = "\<lparr>name = ''NVIDIA GeForce GTX 1060'', vram_total = 6144, architecture = ''Pascal''\<rparr>"
  have h: "\<forall>c \<in> set quality_scan. \<not> reaches ?g ''Cyberpunk 2077'' 240 c"
    unfolding quality_scan_list
    by (simp add: reaches_def predict_fps_average not_le gtx_1060_cyberpunk_below_240)
  show ?thesis
    using unattainable_target [OF h, of True] by blast
qed

subsection \<open>The search on an example\<close>

lemma fortnite_base_fps: "get_game_base_fps ''Fortnite'' = 120"
  by code_simp

lemma rtx_3070_fortnite_60:
  "\<not> reaches rtx_3070 ''Fortnite'' 60 (''3840x2160'', ''ultra'')"
  "\<not> reaches rtx_3070 ''Fortnite'' 60 (''3840x2160'', ''high'')"
  "reaches rtx_3070 ''Fortnite'' 60 (''3840x2160'', ''medium'')"
  "reaches rtx_3070 ''Fortnite'' 60 (''3840x2160'', ''low'')"
  "reaches rtx_3070 ''Fortnite'' 60 (''2560x1440'', ''ultra'')"
  "reaches rtx_3070 ''Fortnite'' 60 (''2560x1440'', ''high'')"
  "reaches rtx_3070 ''Fortnite'' 60 (''2560x1440'', ''medium'')"
  "reaches rtx_3070 ''Fortnite'' 60 (''2560x1440'', ''low'')"
  "reaches rtx_3070 ''Fortnite'' 60 (''1920x1080'', ''ultra'')"
  "reaches rtx_3070 ''Fortnite'' 60 (''1920x1080'', ''high'')"
  "reaches rtx_3070 ''Fortnite'' 60 (''1920x1080'', ''medium'')"
  "reaches rtx_3070 ''Fortnite'' 60 (''1920x1080'', ''low'')"
  "reaches rtx_3070 ''Fortnite'' 60 (''1280x720'', ''ultra'')"
  "reaches rtx_3070 ''Fortnite'' 60 (''1280x720'', ''high'')"
  "reaches rtx_3070 ''Fortnite'' 60 (''1280x720'', ''medium'')"
  "reaches rtx_3070 ''Fortnite'' 60 (''1280x720'', ''low'')"
  by (simp_all add: reaches_def predict_fps_average predicted_fps_def rtx_3070_index
        fortnite_base_fps resolution_multiplier_values quality_multiplier_values fl_eval)

text \<open>
  Claim C4 on an example: for the RTX 3070 of the test suite, Fortnite and 60 FPS the two
  first combinations stay below the target (35 and 50 FPS), the third reaches it (70 FPS),
  and nothing else is evaluated.
\<close>

theorem quality_priority_first_hit_witness:
  "find_optimal_settings_calls rtx_3070 ''Fortnite'' 60 True =
     (config_of rtx_3070 ''Fortnite'' (''3840x2160'', ''medium''),
      [(''3840x2160'', ''ultra''), (''3840x2160'', ''high''), (''3840x2160'', ''medium'')])"
  using quality_priority_first_hit [of rtx_3070 "''Fortnite''" 60]
  by (simp add: quality_scan_list rtx_3070_fortnite_60)

text \<open>
  Claim C5 on the same example: all sixteen combinations are evaluated, and the last one
  that reaches the target is again 4K at medium (4K at high and ultra come after it and stay
  below).
\<close>

theorem performance_priority_last_hit_witness:
  "find_optimal_settings_calls rtx_3070 ''Fortnite'' 60 False =
     (config_of rtx_3070 ''Fortnite'' (''3840x2160'', ''medium''), performance_scan)"
  using performance_priority_last_hit [of rtx_3070 "''Fortnite''" 60]
  by (simp add: performance_scan_list rtx_3070_fortnite_60)

section \<open>Properties of the comparison\<close>

lemma compare_gpus_fields:
  "gpu1_fps (compare_gpus g1 n2 game res preset) = fps_average (predict g1 game res preset)"
  "gpu2_fps (compare_gpus g1 n2 game res preset) = int_of_float (predicted_fps n2 game res preset)"
  "fps_difference (compare_gpus g1 n2 game res preset) =
     int_of_float (predicted_fps n2 game res preset) - fps_average (predict g1 game res preset)"
  "percentage_difference (compare_gpus g1 n2 game res preset) =
     round1 (if 0 < fps_average (predict g1 game res preset)
             then fmul (int_truediv (int_of_float (predicted_fps n2 game res preset) -
                                     fps_average (predict g1 game res preset))
                          (fps_average (predict g1 game res preset)))
                    (float_of_int 100)
             else 0)"
  "faster_gpu (compare_gpus g1 n2 game res preset) =
     (if 0 < int_of_float (predicted_fps n2 game res preset) - fps_average (predict g1 game res preset)
      then n2 else name g1)"
  by (simp_all add: compare_gpus_def predicted_fps_def Let_def)

lemma round1_zero: "round1 0 = 0"
  by (simp add: round1_def round_half_even_def)

text \<open>
  Claim C7, as amended. The difference is the second frame rate minus the average of the
  first prediction; the percentage difference is the quotient of the difference by that
  average, times 100, in float arithmetic, 0 when the average is 0, and the value returned
  is this number rounded to one decimal place; the faster GPU is the second name exactly
  when the difference is positive, and the name of the first GPU otherwise.
\<close>

theorem compare_gpus_formula:
  "(let c = compare_gpus g1 n2 game res preset;
        average1 = fps_average (predict g1 game res preset)
    in fps_difference c = gpu2_fps c - average1 \<and>
       percentage_difference c =
         round1 (if average1 = 0 then 0
                 else fmul (int_truediv (fps_difference c) average1) (float_of_int 100)) \<and>
       faster_gpu c = (if 0 < fps_difference c then n2 else name g1))"
  using fps_average_nonneg [of g1 game res preset]
  by (auto simp: compare_gpus_fields Let_def)

lemma comparison_values:
  "int_of_float (predicted_fps ''NVIDIA GeForce RTX 3070'' ''Cyberpunk 2077'' ''1920x1080'' ''high'') = 66"
  "int_of_float (predicted_fps ''RTX 4090'' ''Cyberpunk 2077'' ''1920x1080'' ''high'') = 154"
  by (simp_all add: predicted_fps_def rtx_3070_index rtx_4090_index cyberpunk_base_fps
        resolution_multiplier_values quality_multiplier_values fl_eval)

lemma percentage_values:
  "fmul (int_truediv 88 66) (float_of_int 100) = 2345624805922133 / 17592186044416"
  "round1 (2345624805922133 / 17592186044416) = 2345038399720653 / 17592186044416"
  by (simp_all add: fl_eval)

text \<open>
  Claim C7 as stated fails for an RTX 3070 against \<^verbatim>\<open>RTX 4090\<close> in Cyberpunk 2077 at
  1920x1080, high: the averages are 66 and 154, the difference is 88, the stated percentage
  is the float 133.33333333333331, and \<^verbatim>\<open>compare_gpus\<close> returns the float 133.3.
\<close>

theorem compare_gpus_formula_counterexample:
  "gpu1_fps (compare_gpus rtx_3070 ''RTX 4090'' ''Cyberpunk 2077'' ''1920x1080'' ''high'') = 66 \<and>
   fps_difference (compare_gpus rtx_3070 ''RTX 4090'' ''Cyberpunk 2077'' ''1920x1080'' ''high'') = 88 \<and>
   percentage_difference
     (compare_gpus rtx_3070 ''RTX 4090'' ''Cyberpunk 2077'' ''1920x1080'' ''high'') =
     2345038399720653 / 17592186044416 \<and>
   claimed_percentage 88 66 = 2345624805922133 / 17592186044416 \<and>
   percentage_difference
     (compare_gpus rtx_3070 ''RTX 4090'' ''Cyberpunk 2077'' ''1920x1080'' ''high'') \<noteq>
     88 / 66 * 100 \<and>
   percentage_difference
     (compare_gpus rtx_3070 ''RTX 4090'' ''Cyberpunk 2077'' ''1920x1080'' ''high'') \<noteq>
     claimed_percentage
       (fps_difference (compare_gpus rtx_3070 ''RTX 4090'' ''Cyberpunk 2077'' ''1920x1080'' ''high''))
       (gpu1_fps (compare_gpus rtx_3070 ''RTX 4090'' ''Cyberpunk 2077'' ''1920x1080'' ''high''))"
  by (simp add: compare_gpus_fields predict_fps_average comparison_values claimed_percentage_def
        percentage_values)


text \<open>
  Claim C10. The frame rate that \<^verbatim>\<open>compare_gpus\<close> computes for the second GPU by its
  inline formula is the average of \<^verbatim>\<open>predict\<close> for any GPU descriptor with that name, whatever
  its VRAM and architecture, for the same game, resolution and preset.
\<close>

theorem compare_gpus_second_fps:
  "gpu2_fps (compare_gpus gpu1 n2 game res preset) =
     fps_average (predict \<lparr>name = n2, vram_total = v, architecture = a\<rparr> game res preset)"
  by (simp add: compare_gpus_def predict_def Let_def)


end
